theory Spec2Isabelle
  imports Main "HOL-Library.Word"
begin

section \<open>The camera capture component (CameraCapture, with submission)\<close>

text \<open>
  A shallow embedding of the React component \<^verbatim>\<open>CameraCapture\<close>: the text normaliser and the
  token grammar, the room table, the submission to the timetable API, the frame sampler, the
  OCR attempt with its watchdog, and the handlers that reset the analysis.

  Conventions of the model.
  \<^item> A JavaScript string is the list of its UTF-16 code units.
  \<^item> The component's state cells (\<^verbatim>\<open>useState\<close>) and mutable references (\<^verbatim>\<open>useRef\<close>) are the
    fields of one record; a function of the component takes the record and returns it updated,
    together with the list of the calls it made to its collaborators (camera, OCR engine,
    HTTP client, console, timers), in order.
  \<^item> The component function declares \<^verbatim>\<open>hasValidResult\<close> and \<^verbatim>\<open>isFrontCamera\<close> with
    \<^verbatim>\<open>const [x, setX] = useState(...)\<close>: inside one render they are constants, and a setter
    stores the value for the next render without changing the binding that the functions
    created in this render have captured. So a function created in a render reads the value
    of that render, whatever the setters have stored since. The record \<open>closure\<close> holds these
    two constants, and every function that reads them takes the closure it was created in.
    References (\<^verbatim>\<open>xRef.current\<close>) are read from the state.
  \<^item> What a collaborator answers (the text the OCR engine reads, whether a promise rejects,
    the clock) is a parameter of the function that asks.
  \<^item> Every function of the component is given as one function that runs a call to its end,
    with nothing running between its steps. The timer and the effect of the first render
    start calls while earlier ones are still awaiting a promise: for them the functions
    are given a second time, in segments that end at an \<^verbatim>\<open>await\<close>, and \<open>run\<close> interleaves
    the segments of the pending calls with the ticks of the timer. The handlers of the
    buttons are run as a whole.
\<close>

subsection \<open>Strings\<close>

type_synonym jschar = "16 word"
type_synonym jsstring = "jschar list"

definition ch :: "char \<Rightarrow> jschar" where
  "ch c = of_nat (of_char c)"

definition js :: "string \<Rightarrow> jsstring" where
  "js s = map ch s"

text \<open>The characters that \<^verbatim>\<open>\s\<close> matches and that \<^verbatim>\<open>trim\<close> strips: white space and line
  terminators of ECMAScript.\<close>

definition isWhiteSpace :: "jschar \<Rightarrow> bool" where
  "isWhiteSpace c \<longleftrightarrow>
     c \<in> set [0x0009, 0x000A, 0x000B, 0x000C, 0x000D, 0x0020, 0x00A0, 0x1680,
              0x2028, 0x2029, 0x202F, 0x205F, 0x3000, 0xFEFF]
     \<or> (0x2000 \<le> c \<and> c \<le> 0x200A)"

text \<open>\<^verbatim>\<open>.replace(/[oO]/g, '0')\<close>\<close>

definition replace_oO :: "jsstring \<Rightarrow> jsstring" where
  "replace_oO s = map (\<lambda>c. if c = ch CHR ''o'' \<or> c = ch CHR ''O'' then ch CHR ''0'' else c) s"

text \<open>\<^verbatim>\<open>.replace(/\s+/g, '')\<close>: scanning from the left, every maximal run of white space is
  replaced by the empty string.\<close>

function replace_spaces :: "jsstring \<Rightarrow> jsstring" where
  "replace_spaces [] = []"
| "replace_spaces (c # cs) =
     (if isWhiteSpace c then replace_spaces (dropWhile isWhiteSpace cs)
      else c # replace_spaces cs)"
  by pat_completeness auto
termination
  by (relation "measure length") (auto simp: less_Suc_eq_le length_dropWhile_le)

text \<open>\<^verbatim>\<open>.trim()\<close>\<close>

definition trim :: "jsstring \<Rightarrow> jsstring" where
  "trim s = rev (dropWhile isWhiteSpace (rev (dropWhile isWhiteSpace s)))"

definition preprocessText :: "jsstring \<Rightarrow> jsstring" where
  "preprocessText s = trim (replace_spaces (replace_oO s))"

subsection \<open>Regular expressions\<close>

text \<open>The fragment of the pattern language that the component uses: the assertions \<^verbatim>\<open>^\<close> and
  \<^verbatim>\<open>$\<close> (no flag is set, so they hold at the two ends of the input only), a character, a class
  of ranges, concatenation, and the greedy option. \<open>matchAt\<close> lists, in the matcher's order of
  preference, the positions at which a match that starts at the given position can end; a
  position is the index and the input left to read.\<close>

datatype regex =
    Bol | Eol | Eps
  | Chr jschar
  | Cls "(jschar \<times> jschar) list"
  | Cat regex regex
  | Opt regex

text \<open>The quantifier \<^verbatim>\<open>{m,n}\<close>.\<close>

fun between :: "nat \<Rightarrow> nat \<Rightarrow> regex \<Rightarrow> regex" where
  "between 0 0 r = Eps"
| "between 0 (Suc n) r = Opt (Cat r (between 0 n r))"
| "between (Suc m) n r = Cat r (between m (n - 1) r)"

definition inClass :: "(jschar \<times> jschar) list \<Rightarrow> jschar \<Rightarrow> bool" where
  "inClass rs c = list_ex (\<lambda>(lo, hi). lo \<le> c \<and> c \<le> hi) rs"

fun matchAt :: "regex \<Rightarrow> nat \<times> jsstring \<Rightarrow> (nat \<times> jsstring) list" where
  "matchAt Bol (i, s) = (if i = 0 then [(i, s)] else [])"
| "matchAt Eol (i, s) = (if s = [] then [(i, s)] else [])"
| "matchAt Eps (i, s) = [(i, s)]"
| "matchAt (Chr c) (i, s) =
     (case s of [] \<Rightarrow> [] | x # xs \<Rightarrow> if x = c then [(Suc i, xs)] else [])"
| "matchAt (Cls rs) (i, s) =
     (case s of [] \<Rightarrow> [] | x # xs \<Rightarrow> if inClass rs x then [(Suc i, xs)] else [])"
| "matchAt (Cat a b) p = concat (map (matchAt b) (matchAt a p))"
| "matchAt (Opt a) p = matchAt a p @ [p]"

text \<open>\<^verbatim>\<open>regex.test(s)\<close>: some start index has a match.\<close>

definition regex_test :: "regex \<Rightarrow> jsstring \<Rightarrow> bool" where
  "regex_test r s = list_ex (\<lambda>i. matchAt r (i, drop i s) \<noteq> []) [0..<Suc (length s)]"

text \<open>\<^verbatim>\<open>/^M[0-9]{1,2}-T[DP]$/\<close>\<close>

definition tokenRegex :: regex where
  "tokenRegex =
     Cat Bol (Cat (Chr (ch CHR ''M''))
       (Cat (between 1 2 (Cls [(ch CHR ''0'', ch CHR ''9'')]))
         (Cat (Chr (ch CHR ''-'')) (Cat (Chr (ch CHR ''T''))
           (Cat (Cls [(ch CHR ''D'', ch CHR ''D''), (ch CHR ''P'', ch CHR ''P'')]) Eol)))))"

definition isValidFormat :: "jsstring \<Rightarrow> bool" where
  "isValidFormat s = regex_test tokenRegex s"

subsection \<open>The token grammar in the words of the specification\<close>

text \<open>The normal form the specification describes: every letter o or O replaced by the digit
  0, and all white space removed.\<close>

definition spec_normalize :: "jsstring \<Rightarrow> jsstring" where
  "spec_normalize s =
     filter (\<lambda>c. \<not> isWhiteSpace c)
       (map (\<lambda>c. if c = ch CHR ''o'' \<or> c = ch CHR ''O'' then ch CHR ''0'' else c) s)"

definition isDigit :: "jschar \<Rightarrow> bool" where
  "isDigit c \<longleftrightarrow> ch CHR ''0'' \<le> c \<and> c \<le> ch CHR ''9''"

text \<open>The strings of the grammar: M, one or two digits, a hyphen, T, and D or P.\<close>

fun spec_token :: "jsstring \<Rightarrow> bool" where
  "spec_token [m, d, h, t, x] =
     (m = ch CHR ''M'' \<and> isDigit d \<and> h = ch CHR ''-'' \<and> t = ch CHR ''T''
      \<and> (x = ch CHR ''D'' \<or> x = ch CHR ''P''))"
| "spec_token [m, d1, d2, h, t, x] =
     (m = ch CHR ''M'' \<and> isDigit d1 \<and> isDigit d2 \<and> h = ch CHR ''-'' \<and> t = ch CHR ''T''
      \<and> (x = ch CHR ''D'' \<or> x = ch CHR ''P''))"
| "spec_token _ = False"

subsection \<open>The room table\<close>

text \<open>\<^verbatim>\<open>getRoomId\<close>: the \<^verbatim>\<open>switch\<close> compares with strict equality, case by case; \<^verbatim>\<open>null\<close> is
  \<open>None\<close>.\<close>

definition getRoomId :: "jsstring \<Rightarrow> int option" where
  "getRoomId s =
     (if s = js ''M01-TD'' then Some 12673
      else if s = js ''M02-TD'' then Some 12981
      else if s = js ''M03-TP'' then Some 19393
      else if s = js ''M05-TP'' then Some 12680
      else if s = js ''M06-TP'' then Some 43372
      else if s = js ''M07-TP'' then Some 12677
      else if s = js ''M09-TP'' then Some 12678
      else if s = js ''M10-TP'' then Some 12679
      else if s = js ''M11-TD'' then Some 12674
      else if s = js ''M13-TP'' then Some 62575
      else if s = js ''M14-TD'' then Some 13927
      else None)"

text \<open>The cases of the \<^verbatim>\<open>switch\<close> as a table: pairs of a token and its identifier.\<close>

definition roomTable :: "(jsstring \<times> int) list" where
  "roomTable =
     [(js ''M01-TD'', 12673), (js ''M02-TD'', 12981), (js ''M03-TP'', 19393),
      (js ''M05-TP'', 12680), (js ''M06-TP'', 43372), (js ''M07-TP'', 12677),
      (js ''M09-TP'', 12678), (js ''M10-TP'', 12679), (js ''M11-TD'', 12674),
      (js ''M13-TP'', 62575), (js ''M14-TD'', 13927)]"

subsection \<open>State, closures and collaborators\<close>

text \<open>What \<^verbatim>\<open>response.data\<close> can be: a falsy value (\<^verbatim>\<open>null\<close>, \<^verbatim>\<open>undefined\<close>, the empty string,
  \<^verbatim>\<open>0\<close>, \<^verbatim>\<open>false\<close>), an array of schedule events (opaque, numbered), or another truthy value.\<close>

datatype api_data = DataFalsy | DataArray "nat list" | DataOther

text \<open>The state cells and the references of the component. \<open>videoRef\<close> and \<open>canvasRef\<close> say
  whether the reference holds an element; a worker is a handle number; a stream is the list of
  its tracks. The clock counts milliseconds. \<open>analysisCountRef\<close> starts at 0 and is only
  incremented or set to 0, so it is a natural number. \<open>intervals\<close> lists the timers that
  \<^verbatim>\<open>setInterval\<close> has installed and that no \<^verbatim>\<open>clearInterval\<close> has removed, each with the
  closure of its callback.\<close>

record closure =
  c_hasValidResult :: bool
  c_isFrontCamera :: bool

record state =
  extractedText :: jsstring
  isAnalyzing :: bool
  hasValidResult :: bool
  isFrontCamera :: bool
  videoRef :: bool
  canvasRef :: bool
  workerRef :: "nat option"
  streamRef :: "nat list option"
  lastSuccessRef :: int
  analysisCountRef :: nat
  day :: "api_data option"
  isCalendarOpen :: bool
  calendarEvents :: "nat list"
  isLoading :: bool
  intervals :: "closure list"

text \<open>The closure of the functions created by the render of a state.\<close>

definition render :: "state \<Rightarrow> closure" where
  "render st = \<lparr>c_hasValidResult = hasValidResult st, c_isFrontCamera = isFrontCamera st\<rparr>"

text \<open>The state when the effects of the first render run: the initial values of the cells and
  of the references, the two elements mounted; \<open>now\<close> is the clock at the first render.\<close>

definition initialState :: "int \<Rightarrow> state" where
  "initialState now =
     \<lparr>extractedText = [], isAnalyzing = False, hasValidResult = False, isFrontCamera = False,
      videoRef = True, canvasRef = True, workerRef = None, streamRef = None,
      lastSuccessRef = now, analysisCountRef = 0, day = None, isCalendarOpen = False,
      calendarEvents = [], isLoading = False, intervals = []\<rparr>"

record salle_entry =
  id' :: int
  title :: jsstring
  eventColor :: jsstring

record payload =
  salle :: "salle_entry list"

datatype facing = User | Environment

datatype logmsg =
    ReinitialisationDuWorker
  | FormatValideTrouve jsstring
  | ReponseApi api_data
  | ErreurInitialisation
  | ErreurAccesCamera
  | ErreurReinitialisation
  | ErreurAnalyse
  | ErreurEnvoiApi

datatype timer_callback = CallInitializeCamera | CallStartAnalysis

text \<open>The calls to the collaborators.\<close>

datatype event =
    TrackStop nat
  | GetUserMedia facing
  | Terminate nat
  | CreateWorker
  | LoadLanguage nat
  | Initialize nat
  | SetParameters nat
  | DrawImage
  | Recognize nat nat
  | HttpPost jsstring payload
  | ConsoleLog logmsg
  | ConsoleError logmsg
  | SetTimeout timer_callback nat
  | SetInterval nat
  | ClearInterval

text \<open>The answers of the collaborators. For one call of \<^verbatim>\<open>reinitializeWorker\<close> (and of
  \<^verbatim>\<open>initializeTesseract\<close>): which of the awaited engine calls resolve, the handle that
  \<^verbatim>\<open>createWorker\<close> gives, and the clock when the engine is ready.\<close>

record engine_env =
  terminate_ok :: bool
  createWorker_ok :: bool
  createWorker_handle :: nat
  loadLanguage_ok :: bool
  initialize_ok :: bool
  setParameters_ok :: bool
  ready_now :: int

datatype camera_outcome = CameraRejected | CameraStream "nat list"

datatype ocr_outcome = RecognizeThrows | RecognizeResult "jsstring option"

datatype http_outcome = HttpRejected | HttpResponse nat api_data

record api_env =
  today :: jsstring
  http :: http_outcome

text \<open>For one tick of the timer, or for the settlement of one promise that a tick awaits: the
  engine's answers if the loop has to create the worker, the image that the canvas encodes,
  the clock at the start of the attempt, the engine's answers if the watchdog fires, and what
  the recognition gives.\<close>

record tick_env =
  loop_engine :: engine_env
  frame :: nat
  date_now :: int
  watchdog_engine :: engine_env
  recognize :: ocr_outcome

subsection \<open>Submission\<close>

definition endsWith :: "jsstring \<Rightarrow> jsstring \<Rightarrow> bool" where
  "endsWith s suffix \<longleftrightarrow>
     length suffix \<le> length s \<and> drop (length s - length suffix) s = suffix"

definition apiUrl :: "jsstring \<Rightarrow> jsstring" where
  "apiUrl d = js ''https://progpedammi.iut-tlse3.fr/APICelcat/public/sallesmmi?date='' @ d"

text \<open>\<^verbatim>\<open>sendToApi\<close>. \<^verbatim>\<open>if (!id) return\<close> leaves on \<^verbatim>\<open>null\<close> and on \<^verbatim>\<open>0\<close>. A rejected
  \<^verbatim>\<open>Http.post\<close> and the \<^verbatim>\<open>throw\<close> on falsy data both end in the \<^verbatim>\<open>catch\<close>, which logs.\<close>

definition sendToApi :: "api_env \<Rightarrow> jsstring \<Rightarrow> state \<Rightarrow> state \<times> event list" where
  "sendToApi env s st =
     (let st1 = st\<lparr>isLoading := True\<rparr> in
      case getRoomId s of
        None \<Rightarrow> (st1, [])
      | Some i \<Rightarrow>
          if i = 0 then (st1, [])
          else
            let isTP = endsWith s (js ''-TP'');
                p = \<lparr>salle = [\<lparr>id' = i, title = s,
                       eventColor = (if isTP then js ''#FFFFBF'' else js ''#FFD7B0'')\<rparr>]\<rparr>;
                post = HttpPost (apiUrl (today env)) p
            in (case http env of
                  HttpRejected \<Rightarrow> (st1, [post, ConsoleError ErreurEnvoiApi])
                | HttpResponse status d \<Rightarrow>
                    (case d of
                       DataFalsy \<Rightarrow> (st1, [post, ConsoleError ErreurEnvoiApi])
                     | DataArray evs \<Rightarrow>
                         (st1\<lparr>day := Some d, calendarEvents := evs, isCalendarOpen := True,
                              isLoading := False\<rparr>,
                          [post, ConsoleLog (ReponseApi d)])
                     | DataOther \<Rightarrow>
                         (st1\<lparr>day := Some d\<rparr>, [post, ConsoleLog (ReponseApi d)]))))"

text \<open>The effect on \<^verbatim>\<open>extractedText\<close>. It runs after the first render (\<open>prev = None\<close>) and after
  every render in which \<^verbatim>\<open>extractedText\<close> differs from its value \<open>prev\<close> in the render
  before; its body submits a non-empty text.\<close>

definition extractedTextEffect :: "api_env \<Rightarrow> jsstring option \<Rightarrow> state \<Rightarrow> state \<times> event list" where
  "extractedTextEffect env prev st =
     (if prev = Some (extractedText st) then (st, [])
      else if extractedText st \<noteq> [] then sendToApi env (extractedText st) st
      else (st, []))"

subsection \<open>The OCR engine\<close>

text \<open>The body of the \<^verbatim>\<open>try\<close> shared by \<^verbatim>\<open>initializeTesseract\<close> and \<^verbatim>\<open>reinitializeWorker\<close>,
  from \<^verbatim>\<open>createWorker\<close> on: \<open>Inl\<close> when an awaited call rejects, with the state and the
  calls up to there.\<close>

definition createAndConfigure :: "engine_env \<Rightarrow> state \<Rightarrow> (state \<times> event list) + (state \<times> event list)" where
  "createAndConfigure e st =
     (if \<not> createWorker_ok e then Inl (st, [CreateWorker])
      else
        let w = createWorker_handle e; st1 = st\<lparr>workerRef := Some w\<rparr> in
        if \<not> loadLanguage_ok e then Inl (st1, [CreateWorker, LoadLanguage w])
        else if \<not> initialize_ok e then Inl (st1, [CreateWorker, LoadLanguage w, Initialize w])
        else if \<not> setParameters_ok e
          then Inl (st1, [CreateWorker, LoadLanguage w, Initialize w, SetParameters w])
        else Inr (st1, [CreateWorker, LoadLanguage w, Initialize w, SetParameters w]))"

definition initializeTesseract :: "engine_env \<Rightarrow> state \<Rightarrow> state \<times> event list" where
  "initializeTesseract e st =
     (case createAndConfigure e st of
        Inl (st1, evs) \<Rightarrow> (st1, evs @ [ConsoleError ErreurInitialisation])
      | Inr (st1, evs) \<Rightarrow> (st1, evs))"

text \<open>\<^verbatim>\<open>reinitializeWorker\<close>: the two counters are reset at the end of the \<^verbatim>\<open>try\<close> only.\<close>

definition reinitializeWorker :: "engine_env \<Rightarrow> state \<Rightarrow> state \<times> event list" where
  "reinitializeWorker e st =
     (let log = [ConsoleLog ReinitialisationDuWorker];
          stop = (case workerRef st of None \<Rightarrow> [] | Some w \<Rightarrow> [Terminate w])
      in if workerRef st \<noteq> None \<and> \<not> terminate_ok e
         then (st, log @ stop @ [ConsoleError ErreurReinitialisation])
         else case createAndConfigure e st of
                Inl (st1, evs) \<Rightarrow> (st1, log @ stop @ evs @ [ConsoleError ErreurReinitialisation])
              | Inr (st1, evs) \<Rightarrow>
                  (st1\<lparr>lastSuccessRef := ready_now e, analysisCountRef := 0\<rparr>,
                   log @ stop @ evs))"

subsection \<open>The analysis loop\<close>

text \<open>\<^verbatim>\<open>captureFrame\<close>: \<open>None\<close> is \<^verbatim>\<open>undefined\<close>; the data URL of a canvas is a non-empty string.\<close>

definition captureFrame :: "closure \<Rightarrow> tick_env \<Rightarrow> state \<Rightarrow> nat option \<times> event list" where
  "captureFrame cl env st =
     (if \<not> videoRef st \<or> \<not> canvasRef st \<or> workerRef st = None \<or> c_hasValidResult cl
      then (None, [])
      else (Some (frame env), [DrawImage]))"

text \<open>\<^verbatim>\<open>text.split('\n')\<close>\<close>

fun splitLines :: "jsstring \<Rightarrow> jsstring list" where
  "splitLines [] = [[]]"
| "splitLines (c # cs) =
     (if c = 0x000A then [] # splitLines cs
      else case splitLines cs of [] \<Rightarrow> [[c]] | l # ls \<Rightarrow> (c # l) # ls)"

text \<open>The \<^verbatim>\<open>for\<close> loop over the lines, up to its \<^verbatim>\<open>return\<close>: the processed line that is
  written to \<^verbatim>\<open>extractedText\<close>, or \<open>None\<close> when the loop ends.\<close>

fun scanLines :: "jsstring list \<Rightarrow> jsstring option" where
  "scanLines [] = None"
| "scanLines (line # rest) =
     (let processed = preprocessText line
      in if isValidFormat processed then Some processed else scanLines rest)"

text \<open>\<^verbatim>\<open>analyzeFrame\<close>. \<^verbatim>\<open>result.data.text || ''\<close> is the empty string when the text is
  missing.\<close>

definition analyzeFrame :: "closure \<Rightarrow> tick_env \<Rightarrow> nat option \<Rightarrow> state \<Rightarrow> state \<times> event list" where
  "analyzeFrame cl env frameData st =
     (case (frameData, workerRef st) of
        (Some f, Some w) \<Rightarrow>
          if c_hasValidResult cl then (st, [])
          else
            let st1 = st\<lparr>analysisCountRef := analysisCountRef st + 1\<rparr>;
                currentTime = date_now env;
                timeSinceLastSuccess = currentTime - lastSuccessRef st1
            in if timeSinceLastSuccess > 10000 \<and> analysisCountRef st1 > 20
               then reinitializeWorker (watchdog_engine env) st1
               else (case recognize env of
                       RecognizeThrows \<Rightarrow>
                         (st1\<lparr>isAnalyzing := False\<rparr>, [Recognize w f, ConsoleError ErreurAnalyse])
                     | RecognizeResult r \<Rightarrow>
                         (case scanLines (splitLines (case r of None \<Rightarrow> [] | Some s \<Rightarrow> s)) of
                            None \<Rightarrow> (st1, [Recognize w f])
                          | Some processed \<Rightarrow>
                              (st1\<lparr>extractedText := processed, hasValidResult := True,
                                   isAnalyzing := False, lastSuccessRef := currentTime\<rparr>,
                               [Recognize w f, ConsoleLog (FormatValideTrouve processed)])))
      | _ \<Rightarrow> (st, []))"

text \<open>\<^verbatim>\<open>analyzeLoop\<close>, the callback of the timer, in the closure of the \<^verbatim>\<open>startAnalysis\<close> that
  installed it.\<close>

definition analyzeLoop :: "closure \<Rightarrow> tick_env \<Rightarrow> state \<Rightarrow> state \<times> event list" where
  "analyzeLoop cl env st =
     (if c_hasValidResult cl then (st\<lparr>intervals := remove1 cl (intervals st)\<rparr>, [ClearInterval])
      else
        let (st1, ev1) = (if workerRef st = None then reinitializeWorker (loop_engine env) st
                          else (st, []));
            (frameData, ev2) = captureFrame cl env st1;
            (st2, ev3) = (if frameData \<noteq> None then analyzeFrame cl env frameData st1
                          else (st1, []))
        in (st2, ev1 @ ev2 @ ev3))"

text \<open>\<^verbatim>\<open>startAnalysis\<close>: the timer it installs calls \<open>analyzeLoop\<close> in the same closure every
  500 ms. The function it returns is dropped by every caller.\<close>

definition startAnalysis :: "closure \<Rightarrow> state \<Rightarrow> state \<times> event list" where
  "startAnalysis cl st =
     (if c_hasValidResult cl then (st, [])
      else (st\<lparr>isAnalyzing := True, intervals := intervals st @ [cl]\<rparr>, [SetInterval 500]))"

subsection \<open>The camera and the reset handlers\<close>

definition stopCurrentStream :: "state \<Rightarrow> event list" where
  "stopCurrentStream st = (case streamRef st of None \<Rightarrow> [] | Some tracks \<Rightarrow> map TrackStop tracks)"

definition sentinel :: jsstring where
  "sentinel = js ''Erreur d'' @ [0x0027] @ js ''acc'' @ [0x00E8] @ js ''s '' @ [0x00E0]
     @ js '' la cam'' @ [0x00E9] @ js ''ra''"

definition initializeCamera :: "closure \<Rightarrow> camera_outcome \<Rightarrow> state \<Rightarrow> state \<times> event list" where
  "initializeCamera cl cam st =
     (let ev1 = stopCurrentStream st;
          ev2 = [GetUserMedia (if c_isFrontCamera cl then User else Environment)]
      in case cam of
           CameraRejected \<Rightarrow>
             (st\<lparr>extractedText := sentinel\<rparr>, ev1 @ ev2 @ [ConsoleError ErreurAccesCamera])
         | CameraStream tracks \<Rightarrow>
             let st1 = st\<lparr>streamRef := Some tracks\<rparr>
             in if videoRef st1
                then (let (st2, ev3) = startAnalysis cl st1 in (st2, ev1 @ ev2 @ ev3))
                else (st1, ev1 @ ev2))"

text \<open>\<^verbatim>\<open>toggleCamera\<close>, the click handler, and the callback of its timeout.\<close>

definition toggleCamera :: "closure \<Rightarrow> state \<Rightarrow> state \<times> event list" where
  "toggleCamera cl st =
     (st\<lparr>isFrontCamera := \<not> c_isFrontCamera cl, hasValidResult := False, extractedText := [],
         isAnalyzing := False\<rparr>,
      [SetTimeout CallInitializeCamera 100])"

definition toggleCamera_timeout :: "closure \<Rightarrow> camera_outcome \<Rightarrow> state \<Rightarrow> state \<times> event list" where
  "toggleCamera_timeout cl cam st = initializeCamera cl cam st"

text \<open>\<^verbatim>\<open>resetAnalysis\<close>, the handler of the button, and the callback of its timeout.\<close>

definition resetAnalysis :: "closure \<Rightarrow> engine_env \<Rightarrow> state \<Rightarrow> state \<times> event list" where
  "resetAnalysis cl e st =
     (let st1 = st\<lparr>hasValidResult := False, extractedText := [], isAnalyzing := True\<rparr>;
          (st2, ev) = reinitializeWorker e st1
      in (st2, ev @ [SetTimeout CallStartAnalysis 100]))"

definition resetAnalysis_timeout :: "closure \<Rightarrow> state \<Rightarrow> state \<times> event list" where
  "resetAnalysis_timeout cl st = startAnalysis cl st"

text \<open>The \<^verbatim>\<open>onClose\<close> handler given to the calendar modal.\<close>

definition onClose :: "closure \<Rightarrow> engine_env \<Rightarrow> state \<Rightarrow> state \<times> event list" where
  "onClose cl e st =
     (let st1 = st\<lparr>isCalendarOpen := False, day := None, hasValidResult := False,
                    extractedText := [], isAnalyzing := True\<rparr>;
          (st2, ev1) = reinitializeWorker e st1;
          (st3, ev2) = startAnalysis cl st2
      in (st3, ev1 @ ev2))"

subsection \<open>Segments and pending calls\<close>

text \<open>
  An \<^verbatim>\<open>async\<close> function runs until it awaits a promise of a collaborator. What follows the
  \<^verbatim>\<open>await\<close> runs when the promise settles; until then the timer can fire and other promises
  can settle. The functions of this subsection are the segments of the functions above that
  the timer and the first render call: the start of a call up to its first \<^verbatim>\<open>await\<close>, and
  the continuation after each \<^verbatim>\<open>await\<close>. The functions above are these segments run one
  after the other with nothing in between (lemmas \<open>initializeCamera_segments\<close>,
  \<open>reinitializeWorker_segments\<close> and \<open>analyzeLoop_segments\<close>).
\<close>

text \<open>The awaits of the engine calls, in the order of the \<^verbatim>\<open>try\<close> blocks of
  \<^verbatim>\<open>initializeTesseract\<close> and \<^verbatim>\<open>reinitializeWorker\<close>, and whether the awaited call
  resolves.\<close>

datatype engine_await =
  AwaitTerminate | AwaitCreateWorker | AwaitLoadLanguage | AwaitInitialize | AwaitSetParameters

definition await_ok :: "engine_await \<Rightarrow> engine_env \<Rightarrow> bool" where
  "await_ok a e =
     (case a of
        AwaitTerminate \<Rightarrow> terminate_ok e
      | AwaitCreateWorker \<Rightarrow> createWorker_ok e
      | AwaitLoadLanguage \<Rightarrow> loadLanguage_ok e
      | AwaitInitialize \<Rightarrow> initialize_ok e
      | AwaitSetParameters \<Rightarrow> setParameters_ok e)"

text \<open>What follows an engine \<^verbatim>\<open>await\<close> inside the \<^verbatim>\<open>try\<close> block, up to the next one:
  \<open>None\<close> when an exception goes to the \<^verbatim>\<open>catch\<close> (the awaited call rejects, or
  \<^verbatim>\<open>workerRef.current\<close> is \<^verbatim>\<open>null\<close> when a method is called on it); otherwise the state, the
  call made, and the next \<^verbatim>\<open>await\<close>, if one is left. The worker that \<^verbatim>\<open>initialize\<close> and
  \<^verbatim>\<open>setParameters\<close> are called on is read from \<^verbatim>\<open>workerRef.current\<close> at that moment.\<close>

definition engine_continue ::
  "engine_await \<Rightarrow> engine_env \<Rightarrow> state \<Rightarrow> (state \<times> event list \<times> engine_await option) option" where
  "engine_continue a e st =
     (if \<not> await_ok a e then None
      else case a of
        AwaitTerminate \<Rightarrow> Some (st, [CreateWorker], Some AwaitCreateWorker)
      | AwaitCreateWorker \<Rightarrow>
          (let w = createWorker_handle e
           in Some (st\<lparr>workerRef := Some w\<rparr>, [LoadLanguage w], Some AwaitLoadLanguage))
      | AwaitLoadLanguage \<Rightarrow>
          (case workerRef st of
             None \<Rightarrow> None
           | Some w \<Rightarrow> Some (st, [Initialize w], Some AwaitInitialize))
      | AwaitInitialize \<Rightarrow>
          (case workerRef st of
             None \<Rightarrow> None
           | Some w \<Rightarrow> Some (st, [SetParameters w], Some AwaitSetParameters))
      | AwaitSetParameters \<Rightarrow> Some (st, [], None))"

text \<open>\<^verbatim>\<open>reinitializeWorker\<close>: its start, up to the first \<^verbatim>\<open>await\<close>, changes no state; its
  continuation after an \<^verbatim>\<open>await\<close> ends in the \<^verbatim>\<open>catch\<close>, at the next \<^verbatim>\<open>await\<close>, or,
  after the last one, with the two counters reset.\<close>

definition reinitializeWorker_start :: "state \<Rightarrow> event list \<times> engine_await" where
  "reinitializeWorker_start st =
     (case workerRef st of
        None \<Rightarrow> ([ConsoleLog ReinitialisationDuWorker, CreateWorker], AwaitCreateWorker)
      | Some w \<Rightarrow> ([ConsoleLog ReinitialisationDuWorker, Terminate w], AwaitTerminate))"

definition reinitializeWorker_continue ::
  "engine_await \<Rightarrow> engine_env \<Rightarrow> state \<Rightarrow> state \<times> event list \<times> engine_await option" where
  "reinitializeWorker_continue a e st =
     (case engine_continue a e st of
        None \<Rightarrow> (st, [ConsoleError ErreurReinitialisation], None)
      | Some (st1, evs, Some a') \<Rightarrow> (st1, evs, Some a')
      | Some (st1, evs, None) \<Rightarrow>
          (st1\<lparr>lastSuccessRef := ready_now e, analysisCountRef := 0\<rparr>, evs, None))"

text \<open>\<^verbatim>\<open>initializeTesseract\<close> starts with the call of \<^verbatim>\<open>createWorker\<close>.\<close>

definition initializeTesseract_start :: "event list \<times> engine_await" where
  "initializeTesseract_start = ([CreateWorker], AwaitCreateWorker)"

definition initializeTesseract_continue ::
  "engine_await \<Rightarrow> engine_env \<Rightarrow> state \<Rightarrow> state \<times> event list \<times> engine_await option" where
  "initializeTesseract_continue a e st =
     (case engine_continue a e st of
        None \<Rightarrow> (st, [ConsoleError ErreurInitialisation], None)
      | Some r \<Rightarrow> r)"

text \<open>\<^verbatim>\<open>initializeCamera\<close>: the tracks are stopped and the stream is requested before the
  \<^verbatim>\<open>await\<close>; the rest runs when the request settles.\<close>

definition initializeCamera_request :: "closure \<Rightarrow> state \<Rightarrow> event list" where
  "initializeCamera_request cl st =
     stopCurrentStream st @ [GetUserMedia (if c_isFrontCamera cl then User else Environment)]"

definition initializeCamera_settled ::
  "closure \<Rightarrow> camera_outcome \<Rightarrow> state \<Rightarrow> state \<times> event list" where
  "initializeCamera_settled cl cam st =
     (case cam of
        CameraRejected \<Rightarrow> (st\<lparr>extractedText := sentinel\<rparr>, [ConsoleError ErreurAccesCamera])
      | CameraStream tracks \<Rightarrow>
          let st1 = st\<lparr>streamRef := Some tracks\<rparr>
          in if videoRef st1 then startAnalysis cl st1 else (st1, []))"

text \<open>A suspended call: the \<^verbatim>\<open>await\<close> it stands at and what its continuation has captured
  (the closure of the loop; the \<^verbatim>\<open>currentTime\<close> of the attempt).\<close>

datatype task =
    TesseractInit engine_await
  | CameraRequest closure
  | LoopReinit closure engine_await
  | WatchdogReinit engine_await
  | Recognition int

text \<open>\<^verbatim>\<open>analyzeFrame\<close> up to its \<^verbatim>\<open>await\<close>: of the reinitialisation that the watchdog
  starts, or of the recognition.\<close>

definition analyzeFrame_start ::
  "closure \<Rightarrow> tick_env \<Rightarrow> nat option \<Rightarrow> state \<Rightarrow> state \<times> event list \<times> task option" where
  "analyzeFrame_start cl env frameData st =
     (case (frameData, workerRef st) of
        (Some f, Some w) \<Rightarrow>
          if c_hasValidResult cl then (st, [], None)
          else
            let st1 = st\<lparr>analysisCountRef := analysisCountRef st + 1\<rparr>;
                currentTime = date_now env;
                timeSinceLastSuccess = currentTime - lastSuccessRef st1
            in if timeSinceLastSuccess > 10000 \<and> analysisCountRef st1 > 20
               then (let (evs, a) = reinitializeWorker_start st1
                     in (st1, evs, Some (WatchdogReinit a)))
               else (st1, [Recognize w f], Some (Recognition currentTime))
      | _ \<Rightarrow> (st, [], None))"

text \<open>\<^verbatim>\<open>analyzeFrame\<close> after the recognition has settled.\<close>

definition analyzeFrame_recognized :: "int \<Rightarrow> tick_env \<Rightarrow> state \<Rightarrow> state \<times> event list" where
  "analyzeFrame_recognized currentTime env st =
     (case recognize env of
        RecognizeThrows \<Rightarrow> (st\<lparr>isAnalyzing := False\<rparr>, [ConsoleError ErreurAnalyse])
      | RecognizeResult r \<Rightarrow>
          (case scanLines (splitLines (case r of None \<Rightarrow> [] | Some s \<Rightarrow> s)) of
             None \<Rightarrow> (st, [])
           | Some processed \<Rightarrow>
               (st\<lparr>extractedText := processed, hasValidResult := True,
                   isAnalyzing := False, lastSuccessRef := currentTime\<rparr>,
                [ConsoleLog (FormatValideTrouve processed)])))"

text \<open>\<^verbatim>\<open>analyzeLoop\<close> from \<^verbatim>\<open>captureFrame\<close> on, and from its start.\<close>

definition analyzeLoop_capture ::
  "closure \<Rightarrow> tick_env \<Rightarrow> state \<Rightarrow> state \<times> event list \<times> task option" where
  "analyzeLoop_capture cl env st =
     (let (frameData, ev2) = captureFrame cl env st;
          (st2, ev3, t) = (if frameData \<noteq> None then analyzeFrame_start cl env frameData st
                           else (st, [], None))
      in (st2, ev2 @ ev3, t))"

definition analyzeLoop_start ::
  "closure \<Rightarrow> tick_env \<Rightarrow> state \<Rightarrow> state \<times> event list \<times> task option" where
  "analyzeLoop_start cl env st =
     (if c_hasValidResult cl
      then (st\<lparr>intervals := remove1 cl (intervals st)\<rparr>, [ClearInterval], None)
      else if workerRef st = None
        then (let (evs, a) = reinitializeWorker_start st in (st, evs, Some (LoopReinit cl a)))
      else analyzeLoop_capture cl env st)"

text \<open>The continuation of a task of the loop when the promise it awaits settles. The
  environment gives the answer of the awaited call and, for what runs after it, the clock and
  the image of the canvas at that moment. The two tasks of the first render are continued by
  \<open>initializeTesseract_continue\<close> and \<open>initializeCamera_settled\<close>.\<close>

fun settle :: "task \<Rightarrow> tick_env \<Rightarrow> state \<Rightarrow> state \<times> event list \<times> task option" where
  "settle (LoopReinit cl a) env st =
     (let (st1, ev1, n) = reinitializeWorker_continue a (loop_engine env) st
      in case n of
           Some a' \<Rightarrow> (st1, ev1, Some (LoopReinit cl a'))
         | None \<Rightarrow> (let (st2, ev2, t) = analyzeLoop_capture cl env st1 in (st2, ev1 @ ev2, t)))"
| "settle (WatchdogReinit a) env st =
     (let (st1, ev1, n) = reinitializeWorker_continue a (watchdog_engine env) st
      in (st1, ev1, map_option WatchdogReinit n))"
| "settle (Recognition currentTime) env st =
     (let (st1, ev1) = analyzeFrame_recognized currentTime env st in (st1, ev1, None))"
| "settle t env st = (st, [], Some t)"

text \<open>The continuations of one call run one after the other with the same answers and
  nothing in between, until the call has ended: at most \<open>n\<close> of them (a reinitialisation has
  at most five, a tick at most nine).\<close>

fun initializeTesseract_rest ::
  "nat \<Rightarrow> engine_env \<Rightarrow> state \<times> event list \<times> engine_await option \<Rightarrow> state \<times> event list" where
  "initializeTesseract_rest n e (st, evs, None) = (st, evs)"
| "initializeTesseract_rest 0 e (st, evs, Some a) = (st, evs)"
| "initializeTesseract_rest (Suc n) e (st, evs, Some a) =
     (let (st1, ev1, a1) = initializeTesseract_continue a e st
      in initializeTesseract_rest n e (st1, evs @ ev1, a1))"

fun reinitializeWorker_rest ::
  "nat \<Rightarrow> engine_env \<Rightarrow> state \<times> event list \<times> engine_await option \<Rightarrow> state \<times> event list" where
  "reinitializeWorker_rest n e (st, evs, None) = (st, evs)"
| "reinitializeWorker_rest 0 e (st, evs, Some a) = (st, evs)"
| "reinitializeWorker_rest (Suc n) e (st, evs, Some a) =
     (let (st1, ev1, a1) = reinitializeWorker_continue a e st
      in reinitializeWorker_rest n e (st1, evs @ ev1, a1))"

fun settle_all ::
  "nat \<Rightarrow> tick_env \<Rightarrow> state \<times> event list \<times> task option \<Rightarrow> state \<times> event list" where
  "settle_all n env (st, evs, None) = (st, evs)"
| "settle_all 0 env (st, evs, Some t) = (st, evs)"
| "settle_all (Suc n) env (st, evs, Some t) =
     (let (st1, ev1, t1) = settle t env st
      in settle_all n env (st1, evs @ ev1, t1))"

text \<open>The component with its suspended calls, each under the number it got when it was
  suspended.\<close>

record system =
  cells :: state
  pending :: "nat \<rightharpoonup> task"
  next_task :: nat

text \<open>What can happen next: an installed timer fires, or the promise that a pending task
  awaits settles. A settlement addressed to no pending task, or to a task that awaits a promise
  of another kind, changes nothing.\<close>

datatype occurrence =
    TimerFires closure tick_env
  | Settles nat tick_env
  | EngineSettles nat engine_env
  | CameraSettles nat camera_outcome

fun occur :: "occurrence \<Rightarrow> system \<Rightarrow> system \<times> event list" where
  "occur (TimerFires cl env) s =
     (if cl \<in> set (intervals (cells s))
      then (let (st, evs, t) = analyzeLoop_start cl env (cells s)
            in case t of
                 None \<Rightarrow> (s\<lparr>cells := st\<rparr>, evs)
               | Some x \<Rightarrow>
                   (s\<lparr>cells := st, pending := (pending s)(next_task s \<mapsto> x),
                      next_task := Suc (next_task s)\<rparr>, evs))
      else (s, []))"
| "occur (Settles k env) s =
     (case pending s k of
        None \<Rightarrow> (s, [])
      | Some t \<Rightarrow>
          (let (st, evs, t') = settle t env (cells s)
           in (s\<lparr>cells := st, pending := (pending s)(k := t')\<rparr>, evs)))"
| "occur (EngineSettles k e) s =
     (case pending s k of
        Some (TesseractInit a) \<Rightarrow>
          (let (st, evs, n) = initializeTesseract_continue a e (cells s)
           in (s\<lparr>cells := st, pending := (pending s)(k := map_option TesseractInit n)\<rparr>, evs))
      | _ \<Rightarrow> (s, []))"
| "occur (CameraSettles k cam) s =
     (case pending s k of
        Some (CameraRequest cl) \<Rightarrow>
          (let (st, evs) = initializeCamera_settled cl cam (cells s)
           in (s\<lparr>cells := st, pending := (pending s)(k := None)\<rparr>, evs))
      | _ \<Rightarrow> (s, []))"

fun run :: "occurrence list \<Rightarrow> system \<Rightarrow> system \<times> event list" where
  "run [] s = (s, [])"
| "run (x # xs) s =
     (let (s1, ev1) = occur x s;
          (s2, ev2) = run xs s1
      in (s2, ev1 @ ev2))"

text \<open>The effect of the first render, \<^verbatim>\<open>initializeCamera(); initializeTesseract();\<close>, in the
  closure of that render: the first call runs up to its request of the stream, the second up
  to its call of \<^verbatim>\<open>createWorker\<close>, and both are pending when the effect returns.\<close>

definition mountEffect :: "system \<Rightarrow> system \<times> event list" where
  "mountEffect s =
     (let cl = render (cells s);
          ev1 = initializeCamera_request cl (cells s);
          (ev2, a) = initializeTesseract_start
      in (s\<lparr>pending := (pending s)(next_task s \<mapsto> CameraRequest cl,
                                     Suc (next_task s) \<mapsto> TesseractInit a),
            next_task := Suc (Suc (next_task s))\<rparr>,
          ev1 @ ev2))"

text \<open>The component when the effects of the first render start: nothing is pending.\<close>

definition mounting :: "int \<Rightarrow> system" where
  "mounting now = \<lparr>cells = initialState now, pending = Map.empty, next_task = 0\<rparr>"

subsection \<open>Observations and example inputs\<close>

text \<open>The requests that a list of calls sends to the API.\<close>

fun posts :: "event list \<Rightarrow> (jsstring \<times> payload) list" where
  "posts [] = []"
| "posts (HttpPost u p # es) = (u, p) # posts es"
| "posts (e # es) = posts es"







text \<open>All the engine calls that \<^verbatim>\<open>reinitializeWorker\<close> awaits in a state resolve.\<close>

definition engine_succeeds :: "engine_env \<Rightarrow> state \<Rightarrow> bool" where
  "engine_succeeds e st \<longleftrightarrow>
     (workerRef st = None \<or> terminate_ok e) \<and> createWorker_ok e \<and> loadLanguage_ok e
     \<and> initialize_ok e \<and> setParameters_ok e"

text \<open>Example inputs: an engine whose calls all resolve, a tick on which the engine reads a
  given text, a submission environment, and the state of a mounted component whose worker is
  ready.\<close>

definition engineOk :: "nat \<Rightarrow> int \<Rightarrow> engine_env" where
  "engineOk h t =
     \<lparr>terminate_ok = True, createWorker_ok = True, createWorker_handle = h,
      loadLanguage_ok = True, initialize_ok = True, setParameters_ok = True, ready_now = t\<rparr>"

definition tickReading :: "int \<Rightarrow> jsstring \<Rightarrow> tick_env" where
  "tickReading now s =
     \<lparr>loop_engine = engineOk 2 now, frame = 0, date_now = now,
      watchdog_engine = engineOk 2 now, recognize = RecognizeResult (Some s)\<rparr>"

definition apiAnswers :: "http_outcome \<Rightarrow> api_env" where
  "apiAnswers r = \<lparr>today = js ''2024-01-15'', http = r\<rparr>"

definition readyState :: state where
  "readyState = (initialState 0)\<lparr>workerRef := Some 1\<rparr>"

definition exampleText :: jsstring where
  "exampleText = js ''noise'' @ [0x000A] @ js ''M03-TP'' @ [0x000A] @ js ''more noise''"

text \<open>The component after the effect of the first render, when the four engine calls and
  then the request of the stream have resolved; and after the first tick of its timer, on
  which the engine reads a token.\<close>

definition mounted :: system where
  "mounted =
     fst (run [EngineSettles 1 (engineOk 1 0), EngineSettles 1 (engineOk 1 0),
               EngineSettles 1 (engineOk 1 0), EngineSettles 1 (engineOk 1 0),
               CameraSettles 0 (CameraStream [1])]
            (fst (mountEffect (mounting 0))))"

definition afterMount :: state where
  "afterMount = cells mounted"

definition afterFirstToken :: state where
  "afterFirstToken =
     fst (analyzeLoop (render (initialState 0)) (tickReading 500 (js ''M03-TP'')) afterMount)"





text \<open>A component that has made five attempts, the last one a success at 2500 ms.\<close>

definition usedState :: state where
  "usedState = readyState\<lparr>extractedText := js ''M03-TP'', hasValidResult := True,
     streamRef := Some [3, 4], lastSuccessRef := 2500, analysisCountRef := 5\<rparr>"

section \<open>Lemmas\<close>

subsection \<open>Normalisation and format\<close>

lemma replace_spaces_filter: "replace_spaces s = filter (\<lambda>c. \<not> isWhiteSpace c) s"
proof (induction s rule: replace_spaces.induct)
  case 1
  show ?case by simp
next
  case (2 c cs)
  have "filter (\<lambda>c. \<not> isWhiteSpace c) (dropWhile isWhiteSpace cs)
      = filter (\<lambda>c. \<not> isWhiteSpace c) cs"
    by (induction cs) auto
  with 2 show ?case by simp
qed

lemma dropWhile_none: "\<forall>c\<in>set s. \<not> P c \<Longrightarrow> dropWhile P s = s"
  by (cases s) auto

lemma trim_no_space: "\<forall>c\<in>set s. \<not> isWhiteSpace c \<Longrightarrow> trim s = s"
  by (simp add: trim_def dropWhile_none)

lemma preprocessText_spec: "preprocessText s = spec_normalize s"
  by (simp add: preprocessText_def spec_normalize_def replace_oO_def replace_spaces_filter
      trim_no_space)

lemma regex_test_anchored: "regex_test (Cat Bol r) s = (matchAt r (0, s) \<noteq> [])"
proof -
  have "list_ex (\<lambda>i. matchAt (Cat Bol r) (i, drop i s) \<noteq> []) [0..<Suc n]
      = (matchAt r (0, s) \<noteq> [])" for n
    by (induction n) (auto simp: list_ex_iff)
  then show ?thesis unfolding regex_test_def .
qed

lemma isValidFormat_spec_token: "isValidFormat t = spec_token t"
  unfolding isValidFormat_def tokenRegex_def regex_test_anchored
  by (cases t rule: spec_token.cases)
     (auto simp: inClass_def isDigit_def numeral_2_eq_2 split: list.splits)

lemmas format_eval =
  js_def ch_def preprocessText_spec spec_normalize_def isValidFormat_spec_token
  isWhiteSpace_def isDigit_def

subsection \<open>Room table and submission\<close>

lemma getRoomId_map_of: "getRoomId t = map_of roomTable t"
  by (simp add: getRoomId_def roomTable_def)

lemma getRoomId_nonzero: "getRoomId t = Some i \<Longrightarrow> i \<noteq> 0"
  by (auto simp: getRoomId_def split: if_splits)

lemma roomTable_keys: "length roomTable = 11 \<and> distinct (map fst roomTable)"
  by (simp add: roomTable_def js_def ch_def)

lemma sendToApi_unmapped:
  "getRoomId t = None \<Longrightarrow> sendToApi env t st = (st\<lparr>isLoading := True\<rparr>, [])"
  by (simp add: sendToApi_def)

lemma sendToApi_posts:
  assumes "getRoomId t = Some i"
  shows "posts (snd (sendToApi env t st)) =
     [(apiUrl (today env), \<lparr>salle = [\<lparr>id' = i, title = t,
        eventColor = (if endsWith t (js ''-TP'') then js ''#FFFFBF'' else js ''#FFD7B0'')\<rparr>]\<rparr>)]"
  using assms getRoomId_nonzero [OF assms]
  by (simp add: sendToApi_def Let_def split: http_outcome.split api_data.split)

lemma token_M03_TP:
  "getRoomId (js ''M03-TP'') = Some 19393 \<and> endsWith (js ''M03-TP'') (js ''-TP'')"
  by (simp add: getRoomId_def js_def ch_def endsWith_def)

lemma token_M11_TD:
  "getRoomId (js ''M11-TD'') = Some 12674 \<and> \<not> endsWith (js ''M11-TD'') (js ''-TP'')"
  by (simp add: getRoomId_def js_def ch_def endsWith_def)

lemma sendToApi_rejected_or_empty:
  assumes "getRoomId t = Some i"
    and "http env = HttpRejected \<or> (\<exists>status. http env = HttpResponse status DataFalsy)"
  shows "sendToApi env t st =
    (st\<lparr>isLoading := True\<rparr>,
     [HttpPost (apiUrl (today env)) \<lparr>salle = [\<lparr>id' = i, title = t,
        eventColor = (if endsWith t (js ''-TP'') then js ''#FFFFBF'' else js ''#FFD7B0'')\<rparr>]\<rparr>,
      ConsoleError ErreurEnvoiApi])"
  using assms getRoomId_nonzero [OF assms(1)]
  by (auto simp: sendToApi_def Let_def)

lemma sendToApi_data:
  assumes "getRoomId t = Some i" and "http env = HttpResponse status d" and "d \<noteq> DataFalsy"
  shows "day (fst (sendToApi env t st)) = Some d
    \<and> ConsoleError ErreurEnvoiApi \<notin> set (snd (sendToApi env t st))"
  using assms getRoomId_nonzero [OF assms(1)]
  by (cases d) (auto simp: sendToApi_def Let_def)

lemma sentinel_unmapped: "sentinel \<noteq> [] \<and> getRoomId sentinel = None"
  by (simp add: sentinel_def getRoomId_def js_def ch_def)

subsection \<open>The scan of the lines\<close>

lemma scanLines_first:
  "\<forall>x\<in>set pre. \<not> isValidFormat (preprocessText x) \<Longrightarrow> isValidFormat (preprocessText l)
   \<Longrightarrow> scanLines (pre @ l # post) = Some (preprocessText l)"
  by (induction pre) simp_all

lemma splitLines_exampleText:
  "splitLines exampleText = [js ''noise'', js ''M03-TP'', js ''more noise'']"
  by (simp add: exampleText_def js_def ch_def)

subsection \<open>The engine\<close>


lemma reinit_counters:
  "(engine_succeeds e st \<longrightarrow>
       analysisCountRef (fst (reinitializeWorker e st)) = 0
       \<and> lastSuccessRef (fst (reinitializeWorker e st)) = ready_now e)
   \<and> (\<not> engine_succeeds e st \<longrightarrow>
       analysisCountRef (fst (reinitializeWorker e st)) = analysisCountRef st
       \<and> lastSuccessRef (fst (reinitializeWorker e st)) = lastSuccessRef st)"
  by (auto simp: reinitializeWorker_def createAndConfigure_def engine_succeeds_def Let_def
      split: option.splits)

lemma reinit_cells:
  "hasValidResult (fst (reinitializeWorker e st)) = hasValidResult st
   \<and> extractedText (fst (reinitializeWorker e st)) = extractedText st
   \<and> isAnalyzing (fst (reinitializeWorker e st)) = isAnalyzing st"
  by (auto simp: reinitializeWorker_def createAndConfigure_def Let_def split: option.splits)

subsection \<open>Ticks\<close>

text \<open>Every timer that \<open>startAnalysis\<close> installs has a closure in which \<open>hasValidResult\<close>
  is false; and a tick in such a closure, on a ready component, draws and recognises the
  frame whatever \<open>hasValidResult\<close> the state holds.\<close>

lemma startAnalysis_installs_open_closure:
  "cl' \<in> set (intervals (fst (startAnalysis cl st))) \<Longrightarrow>
   cl' \<in> set (intervals st) \<or> (cl' = cl \<and> \<not> c_hasValidResult cl')"
  by (auto simp: startAnalysis_def split: if_splits)

lemma tick_recognizes_whatever_is_stored:
  assumes "\<not> c_hasValidResult cl" "videoRef st" "canvasRef st" "workerRef st = Some w"
    and "\<not> (date_now env - lastSuccessRef st > 10000 \<and> analysisCountRef st + 1 > 20)"
  shows "\<exists>tr. snd (analyzeLoop cl env st) = DrawImage # Recognize w (frame env) # tr"
  using assms
  by (auto simp: analyzeLoop_def captureFrame_def analyzeFrame_def Let_def
      split: ocr_outcome.splits option.splits)

subsection \<open>The example inputs\<close>

lemma readyState_facts:
  "videoRef readyState \<and> canvasRef readyState \<and> workerRef readyState = Some 1
   \<and> \<not> c_hasValidResult (render readyState) \<and> analysisCountRef readyState = 0
   \<and> lastSuccessRef readyState = 0"
  by (simp add: readyState_def initialState_def render_def)

subsection \<open>Segments\<close>

text \<open>Each function that is run to its end is its segments run one after the other.\<close>

lemma initializeCamera_segments:
  "initializeCamera cl cam st =
     (fst (initializeCamera_settled cl cam st),
      initializeCamera_request cl st @ snd (initializeCamera_settled cl cam st))"
  by (cases cam)
     (simp_all add: initializeCamera_def initializeCamera_request_def
       initializeCamera_settled_def Let_def split_beta)

lemmas seg_defs = reinitializeWorker_start_def reinitializeWorker_continue_def
  engine_continue_def await_ok_def

lemma reinitializeWorker_segments:
  "reinitializeWorker e st =
     (let (evs, a) = reinitializeWorker_start st
      in reinitializeWorker_rest 5 e (st, evs, Some a))"
  by (cases "workerRef st")
     (simp_all add: reinitializeWorker_def createAndConfigure_def seg_defs Let_def
       eval_nat_numeral)

lemma initializeTesseract_segments:
  "initializeTesseract e st =
     (let (evs, a) = initializeTesseract_start
      in initializeTesseract_rest 4 e (st, evs, Some a))"
  by (simp add: initializeTesseract_def createAndConfigure_def initializeTesseract_start_def
      initializeTesseract_continue_def engine_continue_def await_ok_def Let_def
      eval_nat_numeral)

lemma settle_all_watchdog:
  "settle_all n env (st, evs, Some (WatchdogReinit a))
     = reinitializeWorker_rest n (watchdog_engine env) (st, evs, Some a)"
proof (induction n arbitrary: st evs a)
  case 0
  show ?case by simp
next
  case (Suc n)
  obtain st1 ev1 a1 where c: "reinitializeWorker_continue a (watchdog_engine env) st = (st1, ev1, a1)"
    by (cases "reinitializeWorker_continue a (watchdog_engine env) st") auto
  show ?case by (cases a1) (simp_all add: c Suc.IH)
qed

lemma analyzeFrame_segments:
  "analyzeFrame cl env frameData st = settle_all 5 env (analyzeFrame_start cl env frameData st)"
proof (cases "\<exists>f w. frameData = Some f \<and> workerRef st = Some w \<and> \<not> c_hasValidResult cl")
  case False
  then show ?thesis
    by (auto simp: analyzeFrame_def analyzeFrame_start_def split: option.splits)
next
  case True
  then obtain f w where h: "frameData = Some f" "workerRef st = Some w" "\<not> c_hasValidResult cl"
    by blast
  let ?s = "st\<lparr>analysisCountRef := analysisCountRef st + 1\<rparr>"
  show ?thesis
  proof (cases "date_now env - lastSuccessRef st > 10000 \<and> analysisCountRef st + 1 > 20")
    case True
    with h have "analyzeFrame cl env frameData st = reinitializeWorker (watchdog_engine env) ?s"
      by (simp add: analyzeFrame_def Let_def)
    moreover from True h have "analyzeFrame_start cl env frameData st
        = (?s, fst (reinitializeWorker_start ?s), Some (WatchdogReinit (snd (reinitializeWorker_start ?s))))"
      by (simp add: analyzeFrame_start_def Let_def split_beta)
    ultimately show ?thesis
      by (simp add: settle_all_watchdog reinitializeWorker_segments split_beta Let_def)
  next
    case False
    with h show ?thesis
      by (auto simp: analyzeFrame_def analyzeFrame_start_def analyzeFrame_recognized_def Let_def
          eval_nat_numeral split: ocr_outcome.splits option.splits)
  qed
qed

lemma settle_all_prefix:
  "settle_all n env (st, evs, t) =
     (fst (settle_all n env (st, [], t)), evs @ snd (settle_all n env (st, [], t)))"
proof (induction n arbitrary: st evs t)
  case 0
  show ?case by (cases t) simp_all
next
  case (Suc n)
  show ?case
  proof (cases t)
    case None
    then show ?thesis by simp
  next
    case (Some x)
    obtain st1 ev1 t1 where c: "settle x env st = (st1, ev1, t1)"
      by (cases "settle x env st") auto
    from Suc.IH [of st1 "evs @ ev1" t1] Suc.IH [of st1 ev1 t1]
    show ?thesis by (simp add: Some c)
  qed
qed

lemma reinitializeWorker_rest_fuel:
  "reinitializeWorker_rest (5 + k) e (st, evs, Some a) = reinitializeWorker_rest 5 e (st, evs, Some a)"
  by (cases a;
      simp add: seg_defs eval_nat_numeral Let_def split: option.splits)

lemma settle_all_fuel:
  "settle_all (5 + k) env (analyzeFrame_start cl env frameData st)
     = settle_all 5 env (analyzeFrame_start cl env frameData st)"
proof -
  obtain s evs t where a: "analyzeFrame_start cl env frameData st = (s, evs, t)"
    by (cases "analyzeFrame_start cl env frameData st") auto
  show ?thesis
  proof (cases t)
    case None
    then show ?thesis by (simp add: a)
  next
    case (Some x)
    from a Some have "(\<exists>b. x = WatchdogReinit b) \<or> (\<exists>ct. x = Recognition ct)"
      by (auto simp: analyzeFrame_start_def Let_def split_beta split: option.splits if_splits)
    then show ?thesis
    proof
      assume "\<exists>b. x = WatchdogReinit b"
      then show ?thesis
        using reinitializeWorker_rest_fuel [of k "watchdog_engine env" s evs]
        by (auto simp: a Some settle_all_watchdog)
    next
      assume "\<exists>ct. x = Recognition ct"
      then show ?thesis
        by (auto simp: a Some eval_nat_numeral split_beta)
    qed
  qed
qed

lemma analyzeLoop_capture_segments:
  "settle_all (5 + k) env (analyzeLoop_capture cl env st) =
     (let (frameData, ev2) = captureFrame cl env st;
          (st2, ev3) = (if frameData \<noteq> None then analyzeFrame cl env frameData st
                        else (st, []))
      in (st2, ev2 @ ev3))"
proof (cases "fst (captureFrame cl env st)")
  case None
  then show ?thesis
    by (simp add: analyzeLoop_capture_def split_beta)
next
  case (Some f)
  obtain s evs t where a: "analyzeFrame_start cl env (Some f) st = (s, evs, t)"
    by (cases "analyzeFrame_start cl env (Some f) st") auto
  have "settle_all (5 + k) env (analyzeLoop_capture cl env st)
      = settle_all (5 + k) env (s, snd (captureFrame cl env st) @ evs, t)"
    by (simp add: analyzeLoop_capture_def split_beta Some a)
  also have "\<dots> = (fst (settle_all (5 + k) env (s, evs, t)),
      snd (captureFrame cl env st) @ snd (settle_all (5 + k) env (s, evs, t)))"
    using settle_all_prefix [of "5 + k" env s "snd (captureFrame cl env st) @ evs" t]
      settle_all_prefix [of "5 + k" env s evs t]
    by simp
  also have "settle_all (5 + k) env (s, evs, t) = analyzeFrame cl env (Some f) st"
    using settle_all_fuel [of k env cl "Some f" st] analyzeFrame_segments [of cl env "Some f" st]
    by (simp add: a)
  finally show ?thesis by (simp add: split_beta Some)
qed

lemma capture_tail:
  "settle_all (5 + k) env
      (fst (analyzeLoop_capture cl env s), evs @ fst (snd (analyzeLoop_capture cl env s)),
       snd (snd (analyzeLoop_capture cl env s)))
   = (let (frameData, ev2) = captureFrame cl env s;
          (st2, ev3) = (if frameData \<noteq> None then analyzeFrame cl env frameData s
                        else (s, []))
      in (st2, evs @ ev2 @ ev3))"
  using settle_all_prefix [of "5 + k" env "fst (analyzeLoop_capture cl env s)"
      "evs @ fst (snd (analyzeLoop_capture cl env s))" "snd (snd (analyzeLoop_capture cl env s))"]
    settle_all_prefix [of "5 + k" env "fst (analyzeLoop_capture cl env s)"
      "fst (snd (analyzeLoop_capture cl env s))" "snd (snd (analyzeLoop_capture cl env s))"]
    analyzeLoop_capture_segments [of k env cl s]
  by (simp add: split_beta)

lemma settle_all_step:
  "settle t env st = (st1, ev1, t1) \<Longrightarrow>
   settle_all (Suc n) env (st, evs, Some t) = settle_all n env (st1, evs @ ev1, t1)"
  by simp

lemma loop_reinit_more:
  "engine_continue a (loop_engine env) st = Some (st1, ev1, Some a') \<Longrightarrow>
   settle (LoopReinit cl a) env st = (st1, ev1, Some (LoopReinit cl a'))"
  by (simp add: reinitializeWorker_continue_def)

lemma loop_reinit_caught:
  "engine_continue a (loop_engine env) st = None \<Longrightarrow>
   settle (LoopReinit cl a) env st =
     (fst (analyzeLoop_capture cl env st),
      [ConsoleError ErreurReinitialisation] @ fst (snd (analyzeLoop_capture cl env st)),
      snd (snd (analyzeLoop_capture cl env st)))"
  by (simp add: reinitializeWorker_continue_def split_beta)

lemma loop_reinit_done:
  "engine_continue a (loop_engine env) st = Some (st1, ev1, None) \<Longrightarrow>
   settle (LoopReinit cl a) env st =
     (fst (analyzeLoop_capture cl env
             (st1\<lparr>lastSuccessRef := ready_now (loop_engine env), analysisCountRef := 0\<rparr>)),
      ev1 @ fst (snd (analyzeLoop_capture cl env
             (st1\<lparr>lastSuccessRef := ready_now (loop_engine env), analysisCountRef := 0\<rparr>))),
      snd (snd (analyzeLoop_capture cl env
             (st1\<lparr>lastSuccessRef := ready_now (loop_engine env), analysisCountRef := 0\<rparr>))))"
  by (simp add: reinitializeWorker_continue_def split_beta)

lemma analyzeLoop_segments:
  "analyzeLoop cl env st = settle_all 9 env (analyzeLoop_start cl env st)"
proof (cases "c_hasValidResult cl")
  case True
  then show ?thesis by (simp add: analyzeLoop_def analyzeLoop_start_def)
next
  case False
  note nohv = this
  show ?thesis
  proof (cases "workerRef st")
    case (Some w)
    have "settle_all 9 env (analyzeLoop_capture cl env st) =
     (let (frameData, ev2) = captureFrame cl env st;
          (st2, ev3) = (if frameData \<noteq> None then analyzeFrame cl env frameData st
                        else (st, []))
      in (st2, ev2 @ ev3))"
      using analyzeLoop_capture_segments [of 4 env cl st] by simp
    with nohv Some show ?thesis
      by (simp add: analyzeLoop_def analyzeLoop_start_def split_beta Let_def)
  next
    case None
    let ?e = "loop_engine env"
    let ?h = "createWorker_handle ?e"
    let ?log = "[ConsoleLog ReinitialisationDuWorker, CreateWorker]"
    let ?s1 = "st\<lparr>workerRef := Some ?h\<rparr>"
    have start: "analyzeLoop_start cl env st = (st, ?log, Some (LoopReinit cl AwaitCreateWorker))"
      using nohv None by (simp add: analyzeLoop_start_def reinitializeWorker_start_def)
    have atomic: "analyzeLoop cl env st =
        (let (s1, ev1) = reinitializeWorker ?e st;
             (frameData, ev2) = captureFrame cl env s1;
             (st2, ev3) = (if frameData \<noteq> None then analyzeFrame cl env frameData s1
                           else (s1, []))
         in (st2, ev1 @ ev2 @ ev3))"
      using nohv None by (simp add: analyzeLoop_def)
    note tails = capture_tail [of 3 env cl, simplified] capture_tail [of 2 env cl, simplified]
      capture_tail [of 1 env cl, simplified] capture_tail [of 0 env cl, simplified]
    consider (create) "\<not> createWorker_ok ?e"
      | (load) "createWorker_ok ?e" "\<not> loadLanguage_ok ?e"
      | (init) "createWorker_ok ?e" "loadLanguage_ok ?e" "\<not> initialize_ok ?e"
      | (params) "createWorker_ok ?e" "loadLanguage_ok ?e" "initialize_ok ?e"
          "\<not> setParameters_ok ?e"
      | (ok) "createWorker_ok ?e" "loadLanguage_ok ?e" "initialize_ok ?e" "setParameters_ok ?e"
      by blast
    then show ?thesis
    proof cases
      case create
      have 1: "engine_continue AwaitCreateWorker ?e st = None"
        using create by (simp add: engine_continue_def await_ok_def Let_def)
      have "settle_all 9 env (analyzeLoop_start cl env st)
          = settle_all 8 env (fst (analyzeLoop_capture cl env st),
              ?log @ [ConsoleError ErreurReinitialisation] @ fst (snd (analyzeLoop_capture cl env st)),
              snd (snd (analyzeLoop_capture cl env st)))"
        using settle_all_step [OF loop_reinit_caught [OF 1, of cl], of 8 ?log]
        by (simp add: start)
      also have "\<dots> = (let (frameData, ev2) = captureFrame cl env st;
          (st2, ev3) = (if frameData \<noteq> None then analyzeFrame cl env frameData st
                        else (st, []))
         in (st2, (?log @ [ConsoleError ErreurReinitialisation]) @ ev2 @ ev3))"
        using tails(1) [of st "?log @ [ConsoleError ErreurReinitialisation]"] by simp
      finally show ?thesis
        using create None
        by (simp add: atomic reinitializeWorker_def createAndConfigure_def split_beta Let_def)
    next
      case load
      have 1: "engine_continue AwaitCreateWorker ?e st
          = Some (?s1, [LoadLanguage ?h], Some AwaitLoadLanguage)"
        using load by (simp add: engine_continue_def await_ok_def Let_def)
      have 2: "engine_continue AwaitLoadLanguage ?e ?s1 = None"
        using load by (simp add: engine_continue_def await_ok_def Let_def)
      let ?ev = "?log @ [LoadLanguage ?h] @ [ConsoleError ErreurReinitialisation]"
      have "settle_all 9 env (analyzeLoop_start cl env st)
          = settle_all 8 env (?s1, ?log @ [LoadLanguage ?h], Some (LoopReinit cl AwaitLoadLanguage))"
        using settle_all_step [OF loop_reinit_more [OF 1, of cl], of 8 ?log]
        by (simp add: start)
      also have "\<dots> = settle_all 7 env (fst (analyzeLoop_capture cl env ?s1),
              ?ev @ fst (snd (analyzeLoop_capture cl env ?s1)),
              snd (snd (analyzeLoop_capture cl env ?s1)))"
        using settle_all_step [OF loop_reinit_caught [OF 2, of cl], of 7 "?log @ [LoadLanguage ?h]"]
        by simp
      also have "\<dots> = (let (frameData, ev2) = captureFrame cl env ?s1;
          (st2, ev3) = (if frameData \<noteq> None then analyzeFrame cl env frameData ?s1
                        else (?s1, []))
         in (st2, ?ev @ ev2 @ ev3))"
        using tails(2) [of ?s1 ?ev] by simp
      finally show ?thesis
        using load None
        by (simp add: atomic reinitializeWorker_def createAndConfigure_def split_beta Let_def)
    next
      case init
      have 1: "engine_continue AwaitCreateWorker ?e st
          = Some (?s1, [LoadLanguage ?h], Some AwaitLoadLanguage)"
        using init by (simp add: engine_continue_def await_ok_def Let_def)
      have 2: "engine_continue AwaitLoadLanguage ?e ?s1
          = Some (?s1, [Initialize ?h], Some AwaitInitialize)"
        using init by (simp add: engine_continue_def await_ok_def Let_def)
      have 3: "engine_continue AwaitInitialize ?e ?s1 = None"
        using init by (simp add: engine_continue_def await_ok_def Let_def)
      let ?ev = "?log @ [LoadLanguage ?h] @ [Initialize ?h] @ [ConsoleError ErreurReinitialisation]"
      have "settle_all 9 env (analyzeLoop_start cl env st)
          = settle_all 8 env (?s1, ?log @ [LoadLanguage ?h], Some (LoopReinit cl AwaitLoadLanguage))"
        using settle_all_step [OF loop_reinit_more [OF 1, of cl], of 8 ?log]
        by (simp add: start)
      also have "\<dots> = settle_all 7 env (?s1, ?log @ [LoadLanguage ?h] @ [Initialize ?h],
              Some (LoopReinit cl AwaitInitialize))"
        using settle_all_step [OF loop_reinit_more [OF 2, of cl], of 7 "?log @ [LoadLanguage ?h]"]
        by simp
      also have "\<dots> = settle_all 6 env (fst (analyzeLoop_capture cl env ?s1),
              ?ev @ fst (snd (analyzeLoop_capture cl env ?s1)),
              snd (snd (analyzeLoop_capture cl env ?s1)))"
        using settle_all_step [OF loop_reinit_caught [OF 3, of cl], of 6
            "?log @ [LoadLanguage ?h] @ [Initialize ?h]"]
        by simp
      also have "\<dots> = (let (frameData, ev2) = captureFrame cl env ?s1;
          (st2, ev3) = (if frameData \<noteq> None then analyzeFrame cl env frameData ?s1
                        else (?s1, []))
         in (st2, ?ev @ ev2 @ ev3))"
        using tails(3) [of ?s1 ?ev] by simp
      finally show ?thesis
        using init None
        by (simp add: atomic reinitializeWorker_def createAndConfigure_def split_beta Let_def)
    next
      case params
      have 1: "engine_continue AwaitCreateWorker ?e st
          = Some (?s1, [LoadLanguage ?h], Some AwaitLoadLanguage)"
        using params by (simp add: engine_continue_def await_ok_def Let_def)
      have 2: "engine_continue AwaitLoadLanguage ?e ?s1
          = Some (?s1, [Initialize ?h], Some AwaitInitialize)"
        using params by (simp add: engine_continue_def await_ok_def Let_def)
      have 3: "engine_continue AwaitInitialize ?e ?s1
          = Some (?s1, [SetParameters ?h], Some AwaitSetParameters)"
        using params by (simp add: engine_continue_def await_ok_def Let_def)
      have 4: "engine_continue AwaitSetParameters ?e ?s1 = None"
        using params by (simp add: engine_continue_def await_ok_def Let_def)
      let ?ev3 = "?log @ [LoadLanguage ?h] @ [Initialize ?h] @ [SetParameters ?h]"
      let ?ev = "?ev3 @ [ConsoleError ErreurReinitialisation]"
      have "settle_all 9 env (analyzeLoop_start cl env st)
          = settle_all 8 env (?s1, ?log @ [LoadLanguage ?h], Some (LoopReinit cl AwaitLoadLanguage))"
        using settle_all_step [OF loop_reinit_more [OF 1, of cl], of 8 ?log]
        by (simp add: start)
      also have "\<dots> = settle_all 7 env (?s1, ?log @ [LoadLanguage ?h] @ [Initialize ?h],
              Some (LoopReinit cl AwaitInitialize))"
        using settle_all_step [OF loop_reinit_more [OF 2, of cl], of 7 "?log @ [LoadLanguage ?h]"]
        by simp
      also have "\<dots> = settle_all 6 env (?s1, ?ev3, Some (LoopReinit cl AwaitSetParameters))"
        using settle_all_step [OF loop_reinit_more [OF 3, of cl], of 6
            "?log @ [LoadLanguage ?h] @ [Initialize ?h]"]
        by simp
      also have "\<dots> = settle_all 5 env (fst (analyzeLoop_capture cl env ?s1),
              ?ev @ fst (snd (analyzeLoop_capture cl env ?s1)),
              snd (snd (analyzeLoop_capture cl env ?s1)))"
        using settle_all_step [OF loop_reinit_caught [OF 4, of cl], of 5 ?ev3]
        by simp
      also have "\<dots> = (let (frameData, ev2) = captureFrame cl env ?s1;
          (st2, ev3) = (if frameData \<noteq> None then analyzeFrame cl env frameData ?s1
                        else (?s1, []))
         in (st2, ?ev @ ev2 @ ev3))"
        using tails(4) [of ?s1 ?ev] by simp
      finally show ?thesis
        using params None
        by (simp add: atomic reinitializeWorker_def createAndConfigure_def split_beta Let_def)
    next
      case ok
      have 1: "engine_continue AwaitCreateWorker ?e st
          = Some (?s1, [LoadLanguage ?h], Some AwaitLoadLanguage)"
        using ok by (simp add: engine_continue_def await_ok_def Let_def)
      have 2: "engine_continue AwaitLoadLanguage ?e ?s1
          = Some (?s1, [Initialize ?h], Some AwaitInitialize)"
        using ok by (simp add: engine_continue_def await_ok_def Let_def)
      have 3: "engine_continue AwaitInitialize ?e ?s1
          = Some (?s1, [SetParameters ?h], Some AwaitSetParameters)"
        using ok by (simp add: engine_continue_def await_ok_def Let_def)
      have 4: "engine_continue AwaitSetParameters ?e ?s1 = Some (?s1, [], None)"
        using ok by (simp add: engine_continue_def await_ok_def Let_def)
      let ?ev3 = "?log @ [LoadLanguage ?h] @ [Initialize ?h] @ [SetParameters ?h]"
      let ?s2 = "?s1\<lparr>lastSuccessRef := ready_now ?e, analysisCountRef := 0\<rparr>"
      have "settle_all 9 env (analyzeLoop_start cl env st)
          = settle_all 8 env (?s1, ?log @ [LoadLanguage ?h], Some (LoopReinit cl AwaitLoadLanguage))"
        using settle_all_step [OF loop_reinit_more [OF 1, of cl], of 8 ?log]
        by (simp add: start)
      also have "\<dots> = settle_all 7 env (?s1, ?log @ [LoadLanguage ?h] @ [Initialize ?h],
              Some (LoopReinit cl AwaitInitialize))"
        using settle_all_step [OF loop_reinit_more [OF 2, of cl], of 7 "?log @ [LoadLanguage ?h]"]
        by simp
      also have "\<dots> = settle_all 6 env (?s1, ?ev3, Some (LoopReinit cl AwaitSetParameters))"
        using settle_all_step [OF loop_reinit_more [OF 3, of cl], of 6
            "?log @ [LoadLanguage ?h] @ [Initialize ?h]"]
        by simp
      also have "\<dots> = settle_all 5 env (fst (analyzeLoop_capture cl env ?s2),
              ?ev3 @ fst (snd (analyzeLoop_capture cl env ?s2)),
              snd (snd (analyzeLoop_capture cl env ?s2)))"
        using settle_all_step [OF loop_reinit_done [OF 4, of cl], of 5 ?ev3]
        by simp
      also have "\<dots> = (let (frameData, ev2) = captureFrame cl env ?s2;
          (st2, ev3) = (if frameData \<noteq> None then analyzeFrame cl env frameData ?s2
                        else (?s2, []))
         in (st2, ?ev3 @ ev2 @ ev3))"
        using tails(4) [of ?s2 ?ev3] by simp
      finally show ?thesis
        using ok None
        by (simp add: atomic reinitializeWorker_def createAndConfigure_def split_beta Let_def)
    qed
  qed
qed

subsection \<open>Interleaved ticks and settlements\<close>














subsection \<open>The mounted component\<close>

lemma mounted_eq:
  "mounted = \<lparr>cells = (initialState 0)\<lparr>streamRef := Some [1], isAnalyzing := True,
      intervals := [render (initialState 0)], workerRef := Some 1\<rparr>,
     pending = Map.empty, next_task = 2\<rparr>"
  by (simp add: mounted_def mountEffect_def mounting_def initializeTesseract_start_def
      initializeTesseract_continue_def engine_continue_def await_ok_def engineOk_def
      initializeCamera_request_def initializeCamera_settled_def startAnalysis_def
      stopCurrentStream_def initialState_def render_def Let_def fun_upd_twist)

text \<open>The first render: the stream is requested and \<^verbatim>\<open>createWorker\<close> is called before
  anything settles; the timer is installed when the stream arrives. The cells of the mounted
  component are those that the two calls give when each is run to its end.\<close>

lemma mounted_cells:
  "cells mounted =
     fst (initializeTesseract (engineOk 1 0)
       (fst (initializeCamera (render (initialState 0)) (CameraStream [1]) (initialState 0))))"
  by (simp add: mounted_eq initializeTesseract_def createAndConfigure_def initializeCamera_def
      startAnalysis_def engineOk_def stopCurrentStream_def initialState_def render_def Let_def)

lemma mountEffect_trace:
  "snd (mountEffect (mounting now)) = [GetUserMedia Environment, CreateWorker]"
  by (simp add: mountEffect_def mounting_def initializeCamera_request_def
      initializeTesseract_start_def stopCurrentStream_def initialState_def render_def Let_def)

lemma afterMount_eq:
  "afterMount = (initialState 0)\<lparr>streamRef := Some [1], isAnalyzing := True,
      intervals := [render (initialState 0)], workerRef := Some 1\<rparr>"
  by (simp add: afterMount_def mounted_eq)

lemma afterFirstToken_eq:
  "afterFirstToken = afterMount\<lparr>analysisCountRef := 1, extractedText := js ''M03-TP'',
      hasValidResult := True, isAnalyzing := False, lastSuccessRef := 500\<rparr>"
  unfolding afterFirstToken_def afterMount_eq
  by (simp add: analyzeLoop_def captureFrame_def analyzeFrame_def render_def initialState_def
      tickReading_def Let_def format_eval)




section \<open>The claims\<close>

text \<open>
  Claim C1. For every string \<open>s\<close>, \<open>isValidFormat (preprocessText s)\<close> holds if and only if
  \<open>s\<close>, after every letter o or O is replaced by the digit 0 and all white space is removed,
  is a string of the grammar \<^verbatim>\<open>^M[0-9]{1,2}-T[DP]$\<close>. In particular \<^verbatim>\<open>"m01-TP"\<close> is
  refused (a lower-case m is not replaced), \<^verbatim>\<open>"M0O-TP"\<close> is processed to \<^verbatim>\<open>"M00-TP"\<close> and
  accepted, \<^verbatim>\<open>"M123-TD"\<close> is refused (three digits), and \<^verbatim>\<open>" M5-TP "\<close> is accepted.
\<close>

theorem isValidFormat_preprocessText_iff:
  "(isValidFormat (preprocessText s) \<longleftrightarrow> spec_token (spec_normalize s))
   \<and> \<not> isValidFormat (preprocessText (js ''m01-TP''))
   \<and> preprocessText (js ''M0O-TP'') = js ''M00-TP''
   \<and> isValidFormat (preprocessText (js ''M0O-TP''))
   \<and> \<not> isValidFormat (preprocessText (js ''M123-TD''))
   \<and> isValidFormat (preprocessText (js '' M5-TP ''))"
proof -
  have "isValidFormat (preprocessText s) \<longleftrightarrow> spec_token (spec_normalize s)"
    by (simp only: preprocessText_spec isValidFormat_spec_token)
  moreover have "\<not> isValidFormat (preprocessText (js ''m01-TP''))"
    by (simp add: format_eval)
  moreover have "preprocessText (js ''M0O-TP'') = js ''M00-TP''"
    by (simp add: format_eval)
  moreover have "isValidFormat (preprocessText (js ''M0O-TP''))"
    by (simp add: format_eval)
  moreover have "\<not> isValidFormat (preprocessText (js ''M123-TD''))"
    by (simp add: format_eval)
  moreover have "isValidFormat (preprocessText (js '' M5-TP ''))"
    by (simp add: format_eval)
  ultimately show ?thesis by blast
qed

text \<open>
  Claim C2 (not met by the code). The claim: once \<open>hasValidResult\<close> is true, no tick of the
  analysis loop captures a frame, runs the recognition or leads to a submission, until a
  reset. The timer that the first render installs calls \<open>analyzeLoop\<close> in the closure of that
  render, in which \<open>hasValidResult\<close> is false for ever; so after the tick that reads
  \<^verbatim>\<open>"M03-TP"\<close> and stores \<open>hasValidResult = True\<close>, the next tick of the same timer draws the
  frame, runs the recognition, and, reading \<^verbatim>\<open>"M05-TP"\<close>, stores it in \<open>extractedText\<close>,
  whose effect then posts it.
\<close>

theorem analysis_continues_after_valid_result:
  "intervals afterMount = [render (initialState 0)]
   \<and> hasValidResult afterFirstToken
   \<and> analyzeLoop (render (initialState 0)) (tickReading 1000 (js ''M05-TP'')) afterFirstToken
       = (afterFirstToken\<lparr>analysisCountRef := 2, extractedText := js ''M05-TP'',
            lastSuccessRef := 1000\<rparr>,
          [DrawImage, Recognize 1 0, ConsoleLog (FormatValideTrouve (js ''M05-TP''))])
   \<and> posts (snd (extractedTextEffect (apiAnswers HttpRejected) (Some (js ''M03-TP''))
        (afterFirstToken\<lparr>analysisCountRef := 2, extractedText := js ''M05-TP'',
            lastSuccessRef := 1000\<rparr>)))
       = [(apiUrl (js ''2024-01-15''),
          \<lparr>salle = [\<lparr>id' = 12680, title = js ''M05-TP'', eventColor = js ''#FFFFBF''\<rparr>]\<rparr>)]"
proof -
  have a: "intervals afterMount = [render (initialState 0)]"
    by (simp add: afterMount_eq)
  have b: "hasValidResult afterFirstToken"
    by (simp add: afterFirstToken_eq)
  have c: "analyzeLoop (render (initialState 0)) (tickReading 1000 (js ''M05-TP''))
         afterFirstToken
       = (afterFirstToken\<lparr>analysisCountRef := 2, extractedText := js ''M05-TP'',
            lastSuccessRef := 1000\<rparr>,
          [DrawImage, Recognize 1 0, ConsoleLog (FormatValideTrouve (js ''M05-TP''))])"
    unfolding afterFirstToken_eq afterMount_eq
    by (simp add: analyzeLoop_def captureFrame_def analyzeFrame_def render_def initialState_def
      tickReading_def Let_def format_eval)
  have g: "getRoomId (js ''M05-TP'') = Some 12680"
    by (simp add: getRoomId_def js_def ch_def)
  have e: "endsWith (js ''M05-TP'') (js ''-TP'')"
    by (simp add: endsWith_def js_def ch_def)
  have n: "js ''M03-TP'' \<noteq> js ''M05-TP'' \<and> js ''M05-TP'' \<noteq> []"
    by (simp add: js_def ch_def)
  have d: "posts (snd (extractedTextEffect (apiAnswers HttpRejected) (Some (js ''M03-TP''))
        (afterFirstToken\<lparr>analysisCountRef := 2, extractedText := js ''M05-TP'',
            lastSuccessRef := 1000\<rparr>)))
       = [(apiUrl (js ''2024-01-15''),
          \<lparr>salle = [\<lparr>id' = 12680, title = js ''M05-TP'', eventColor = js ''#FFFFBF''\<rparr>]\<rparr>)]"
    using n sendToApi_posts [OF g, of "apiAnswers HttpRejected"] e
    by (simp add: extractedTextEffect_def apiAnswers_def)
  from a b c d show ?thesis by blast
qed




text \<open>
  Claim C4. \<open>getRoomId\<close> is a function of its argument alone: it gives the identifier that
  the table of eleven distinct tokens lists for the token (12673 for \<^verbatim>\<open>"M01-TD"\<close>, 62575 for
  \<^verbatim>\<open>"M13-TP"\<close>) and \<^verbatim>\<open>null\<close> for every other string; and whenever it gives \<^verbatim>\<open>null\<close>,
  \<open>sendToApi\<close> calls no collaborator, so it sends no HTTP POST.
\<close>

theorem getRoomId_table:
  "getRoomId t = map_of roomTable t
   \<and> length roomTable = 11 \<and> distinct (map fst roomTable)
   \<and> (getRoomId t = None) = (t \<notin> set (map fst roomTable))
   \<and> getRoomId (js ''M01-TD'') = Some 12673 \<and> getRoomId (js ''M13-TP'') = Some 62575
   \<and> (getRoomId t = None \<longrightarrow> sendToApi env t st = (st\<lparr>isLoading := True\<rparr>, []))"
proof -
  have "(getRoomId t = None) = (t \<notin> set (map fst roomTable))"
    unfolding getRoomId_map_of by (simp add: map_of_eq_None_iff)
  moreover have "getRoomId (js ''M01-TD'') = Some 12673"
    by (simp add: getRoomId_def)
  moreover have "getRoomId (js ''M13-TP'') = Some 62575"
    by (simp add: getRoomId_def js_def ch_def)
  ultimately show ?thesis
    using getRoomId_map_of roomTable_keys sendToApi_unmapped by blast
qed

theorem getRoomId_table_witness:
  "getRoomId (js ''M99-TP'') = None
   \<and> sendToApi (apiAnswers (HttpResponse 200 (DataArray [1]))) (js ''M99-TP'') readyState
       = (readyState\<lparr>isLoading := True\<rparr>, [])"
proof -
  have h: "getRoomId (js ''M99-TP'') = None"
    by (simp add: getRoomId_def js_def ch_def)
  from getRoomId_table [of "js ''M99-TP''"] h show ?thesis by blast
qed

text \<open>
  Claim C5. For every token \<open>t\<close> of the table, \<open>sendToApi\<close> sends exactly one request, whose
  payload holds one entry with the identifier \<open>getRoomId t\<close>, the title \<open>t\<close>, and the colour
  \<^verbatim>\<open>#FFFFBF\<close> when \<open>t\<close> ends in \<^verbatim>\<open>-TP\<close> and \<^verbatim>\<open>#FFD7B0\<close> otherwise. In particular
  \<^verbatim>\<open>"M03-TP"\<close> is sent with 19393 and \<^verbatim>\<open>#FFFFBF\<close>, and \<^verbatim>\<open>"M11-TD"\<close> with 12674 and
  \<^verbatim>\<open>#FFD7B0\<close>.
\<close>

theorem sendToApi_payload:
  "(getRoomId t = Some i \<longrightarrow>
      posts (snd (sendToApi env t st)) =
        [(apiUrl (today env), \<lparr>salle = [\<lparr>id' = i, title = t,
           eventColor = (if endsWith t (js ''-TP'') then js ''#FFFFBF'' else js ''#FFD7B0'')\<rparr>]\<rparr>)])
   \<and> posts (snd (sendToApi env (js ''M03-TP'') st)) =
        [(apiUrl (today env),
          \<lparr>salle = [\<lparr>id' = 19393, title = js ''M03-TP'', eventColor = js ''#FFFFBF''\<rparr>]\<rparr>)]
   \<and> posts (snd (sendToApi env (js ''M11-TD'') st)) =
        [(apiUrl (today env),
          \<lparr>salle = [\<lparr>id' = 12674, title = js ''M11-TD'', eventColor = js ''#FFD7B0''\<rparr>]\<rparr>)]"
proof -
  have a: "posts (snd (sendToApi env (js ''M03-TP'') st)) =
        [(apiUrl (today env),
          \<lparr>salle = [\<lparr>id' = 19393, title = js ''M03-TP'', eventColor = js ''#FFFFBF''\<rparr>]\<rparr>)]"
    using token_M03_TP sendToApi_posts [of "js ''M03-TP''" 19393 env st] by simp
  have b: "posts (snd (sendToApi env (js ''M11-TD'') st)) =
        [(apiUrl (today env),
          \<lparr>salle = [\<lparr>id' = 12674, title = js ''M11-TD'', eventColor = js ''#FFD7B0''\<rparr>]\<rparr>)]"
    using token_M11_TD sendToApi_posts [of "js ''M11-TD''" 12674 env st] by simp
  from a b sendToApi_posts [of t i env st] show ?thesis by blast
qed

theorem sendToApi_payload_witness:
  "getRoomId (js ''M05-TP'') = Some 12680
   \<and> posts (snd (sendToApi (apiAnswers HttpRejected) (js ''M05-TP'') readyState)) =
        [(apiUrl (js ''2024-01-15''),
          \<lparr>salle = [\<lparr>id' = 12680, title = js ''M05-TP'', eventColor = js ''#FFFFBF''\<rparr>]\<rparr>)]"
proof -
  have h: "getRoomId (js ''M05-TP'') = Some 12680"
    by (simp add: getRoomId_def js_def ch_def)
  have e: "endsWith (js ''M05-TP'') (js ''-TP'')"
    by (simp add: endsWith_def js_def ch_def)
  from sendToApi_payload [of "js ''M05-TP''" 12680 "apiAnswers HttpRejected" readyState] h e
  show ?thesis by (simp add: apiAnswers_def)
qed

text \<open>
  Claim C6. When the recognition gives a text of several lines, \<open>analyzeFrame\<close> splits it at
  the newlines and processes the lines in order; the first line whose processed form passes
  the format check is the extracted token, it is logged once, and the result does not depend
  on the lines after it. For \<^verbatim>\<open>"noise\nM03-TP\nmore noise"\<close> the token is \<^verbatim>\<open>"M03-TP"\<close>.
\<close>

theorem analyzeFrame_first_match:
  assumes "workerRef st = Some w" and "\<not> c_hasValidResult cl"
    and "\<not> (date_now env - lastSuccessRef st > 10000 \<and> analysisCountRef st + 1 > 20)"
    and "recognize env = RecognizeResult (Some s)"
    and "splitLines s = pre @ l # post"
    and "\<forall>x\<in>set pre. \<not> isValidFormat (preprocessText x)"
    and "isValidFormat (preprocessText l)"
  shows "analyzeFrame cl env (Some f) st =
      (st\<lparr>analysisCountRef := analysisCountRef st + 1, extractedText := preprocessText l,
          hasValidResult := True, isAnalyzing := False, lastSuccessRef := date_now env\<rparr>,
       [Recognize w f, ConsoleLog (FormatValideTrouve (preprocessText l))])
    \<and> scanLines (pre @ l # post) = scanLines (pre @ [l])
    \<and> scanLines (splitLines exampleText) = Some (js ''M03-TP'')"
proof -
  have first: "scanLines (pre @ l # post) = Some (preprocessText l)"
    by (rule scanLines_first [OF assms(6,7)])
  have short: "scanLines (pre @ [l]) = Some (preprocessText l)"
    by (rule scanLines_first [OF assms(6,7)])
  have "analyzeFrame cl env (Some f) st =
      (st\<lparr>analysisCountRef := analysisCountRef st + 1, extractedText := preprocessText l,
          hasValidResult := True, isAnalyzing := False, lastSuccessRef := date_now env\<rparr>,
       [Recognize w f, ConsoleLog (FormatValideTrouve (preprocessText l))])"
    using assms(1-5) first by (auto simp: analyzeFrame_def Let_def)
  moreover have "scanLines (splitLines exampleText) = Some (js ''M03-TP'')"
    unfolding splitLines_exampleText by (simp add: format_eval)
  ultimately show ?thesis using first short by simp
qed

theorem analyzeFrame_first_match_witness:
  "analyzeFrame (render readyState) (tickReading 500 exampleText) (Some 0) readyState =
      (readyState\<lparr>analysisCountRef := 1, extractedText := js ''M03-TP'',
          hasValidResult := True, isAnalyzing := False, lastSuccessRef := 500\<rparr>,
       [Recognize 1 0, ConsoleLog (FormatValideTrouve (js ''M03-TP''))])"
proof -
  have 1: "workerRef readyState = Some 1"
    by (simp add: readyState_def)
  have 2: "\<not> c_hasValidResult (render readyState)"
    by (simp add: render_def readyState_def initialState_def)
  have 3: "\<not> (date_now (tickReading 500 exampleText) - lastSuccessRef readyState > 10000
      \<and> analysisCountRef readyState + 1 > 20)"
    by (simp add: tickReading_def readyState_def initialState_def)
  have 4: "recognize (tickReading 500 exampleText) = RecognizeResult (Some exampleText)"
    by (simp add: tickReading_def)
  have 5: "splitLines exampleText = [js ''noise''] @ js ''M03-TP'' # [js ''more noise'']"
    by (simp add: splitLines_exampleText)
  have 6: "\<forall>x\<in>set [js ''noise'']. \<not> isValidFormat (preprocessText x)"
    by (simp add: format_eval)
  have 7: "isValidFormat (preprocessText (js ''M03-TP''))"
    by (simp add: format_eval)
  have 8: "preprocessText (js ''M03-TP'') = js ''M03-TP''"
    by (simp add: format_eval)
  from analyzeFrame_first_match [OF 1 2 3 4 5 6 7, of 0] show ?thesis
    by (simp add: 8 tickReading_def readyState_def initialState_def)
qed

text \<open>
  Claim C7 (as amended). The camera toggle sets \<open>hasValidResult\<close>, \<open>extractedText\<close> and
  \<open>isAnalyzing\<close> to their initial values (false, the empty string, false) and leaves
  \<open>analysisCountRef\<close> and \<open>lastSuccessRef\<close> as they are. The manual reset and the dismissal
  of the modal set \<open>hasValidResult\<close> and \<open>extractedText\<close> to their initial values, set
  \<open>isAnalyzing\<close> to true, and reinitialise the engine: if every engine call resolves,
  \<open>analysisCountRef\<close> is 0 and \<open>lastSuccessRef\<close> is the clock read at the end of the
  reinitialisation; otherwise both keep their values.
\<close>

theorem reset_handlers:
  "hasValidResult (fst (toggleCamera cl st)) = False
   \<and> extractedText (fst (toggleCamera cl st)) = []
   \<and> isAnalyzing (fst (toggleCamera cl st)) = False
   \<and> analysisCountRef (fst (toggleCamera cl st)) = analysisCountRef st
   \<and> lastSuccessRef (fst (toggleCamera cl st)) = lastSuccessRef st
   \<and> hasValidResult (fst (resetAnalysis cl e st)) = False
   \<and> extractedText (fst (resetAnalysis cl e st)) = []
   \<and> isAnalyzing (fst (resetAnalysis cl e st)) = True
   \<and> hasValidResult (fst (onClose cl e st)) = False
   \<and> extractedText (fst (onClose cl e st)) = []
   \<and> isAnalyzing (fst (onClose cl e st)) = True
   \<and> (engine_succeeds e st \<longrightarrow>
        analysisCountRef (fst (resetAnalysis cl e st)) = 0
        \<and> lastSuccessRef (fst (resetAnalysis cl e st)) = ready_now e
        \<and> analysisCountRef (fst (onClose cl e st)) = 0
        \<and> lastSuccessRef (fst (onClose cl e st)) = ready_now e)
   \<and> (\<not> engine_succeeds e st \<longrightarrow>
        analysisCountRef (fst (resetAnalysis cl e st)) = analysisCountRef st
        \<and> lastSuccessRef (fst (resetAnalysis cl e st)) = lastSuccessRef st
        \<and> analysisCountRef (fst (onClose cl e st)) = analysisCountRef st
        \<and> lastSuccessRef (fst (onClose cl e st)) = lastSuccessRef st)"
proof -
  let ?r = "st\<lparr>hasValidResult := False, extractedText := [], isAnalyzing := True\<rparr>"
  let ?c = "st\<lparr>isCalendarOpen := False, day := None, hasValidResult := False,
               extractedText := [], isAnalyzing := True\<rparr>"
  have es: "engine_succeeds e ?r = engine_succeeds e st"
    "engine_succeeds e ?c = engine_succeeds e st"
    by (simp_all add: engine_succeeds_def)
  have r: "fst (resetAnalysis cl e st) = fst (reinitializeWorker e ?r)"
    by (simp add: resetAnalysis_def Let_def split_beta)
  have c: "fst (onClose cl e st) = fst (startAnalysis cl (fst (reinitializeWorker e ?c)))"
    by (simp add: onClose_def Let_def split_beta)
  have sa: "hasValidResult (fst (startAnalysis cl s)) = hasValidResult s
     \<and> extractedText (fst (startAnalysis cl s)) = extractedText s
     \<and> (isAnalyzing s \<longrightarrow> isAnalyzing (fst (startAnalysis cl s)))
     \<and> analysisCountRef (fst (startAnalysis cl s)) = analysisCountRef s
     \<and> lastSuccessRef (fst (startAnalysis cl s)) = lastSuccessRef s" for s
    by (simp add: startAnalysis_def)
  have t: "hasValidResult (fst (toggleCamera cl st)) = False
   \<and> extractedText (fst (toggleCamera cl st)) = []
   \<and> isAnalyzing (fst (toggleCamera cl st)) = False
   \<and> analysisCountRef (fst (toggleCamera cl st)) = analysisCountRef st
   \<and> lastSuccessRef (fst (toggleCamera cl st)) = lastSuccessRef st"
    by (simp add: toggleCamera_def)
  from t r c sa reinit_cells [of e ?r] reinit_cells [of e ?c]
    reinit_counters [of e ?r] reinit_counters [of e ?c] es
  show ?thesis by simp
qed

theorem reset_handlers_witness:
  "analysisCountRef (fst (resetAnalysis (render usedState) (engineOk 2 9000) usedState)) = 0
   \<and> lastSuccessRef (fst (onClose (render usedState) (engineOk 2 9000) usedState)) = 9000
   \<and> analysisCountRef (fst (resetAnalysis (render usedState)
        ((engineOk 2 9000)\<lparr>loadLanguage_ok := False\<rparr>) usedState)) = 5"
proof -
  have a: "engine_succeeds (engineOk 2 9000) usedState"
    by (simp add: engine_succeeds_def engineOk_def)
  have b: "\<not> engine_succeeds ((engineOk 2 9000)\<lparr>loadLanguage_ok := False\<rparr>) usedState"
    by (simp add: engine_succeeds_def)
  have c: "ready_now (engineOk 2 9000) = 9000" "analysisCountRef usedState = 5"
    by (simp_all add: engineOk_def usedState_def)
  from reset_handlers [of "render usedState" usedState "engineOk 2 9000"]
    reset_handlers [of "render usedState" usedState
      "(engineOk 2 9000)\<lparr>loadLanguage_ok := False\<rparr>"]
    a b c
  show ?thesis by simp
qed

text \<open>The claim as stated fails: after the camera toggle the attempt counter is still 5 and
  the time of the last success still 2500, and after the manual reset and the dismissal of
  the modal \<open>isAnalyzing\<close> is true, while the initial values are 0, the clock of the first
  render, and false.\<close>

theorem reset_handlers_counterexample:
  "analysisCountRef (fst (toggleCamera (render usedState) usedState)) = 5
   \<and> lastSuccessRef (fst (toggleCamera (render usedState) usedState)) = 2500
   \<and> analysisCountRef (initialState 9000) = 0
   \<and> isAnalyzing (fst (resetAnalysis (render usedState) (engineOk 2 9000) usedState))
   \<and> isAnalyzing (fst (onClose (render usedState) (engineOk 2 9000) usedState))
   \<and> \<not> isAnalyzing (initialState 9000)"
  by (simp add: toggleCamera_def resetAnalysis_def onClose_def usedState_def readyState_def
      initialState_def reinitializeWorker_def createAndConfigure_def engineOk_def
      startAnalysis_def render_def Let_def)

text \<open>
  Claim C8 (as amended). For every submission of a token of the table in which the HTTP POST
  is rejected or the response carries no data (\<^verbatim>\<open>response.data\<close> falsy), whatever its status,
  \<open>sendToApi\<close> sends the request, logs the error and stops: no cell but \<open>isLoading\<close> changes
  (no schedule is stored, nothing is shown), and \<open>isLoading\<close> stays true. A response that
  carries data is not a failure for \<open>sendToApi\<close>, whatever its status: the data is stored in
  \<open>day\<close> and no error is logged.
\<close>

theorem sendToApi_failure_logged_only:
  "(getRoomId t = Some i \<and>
      (http env = HttpRejected \<or> (\<exists>status. http env = HttpResponse status DataFalsy)) \<longrightarrow>
        sendToApi env t st =
          (st\<lparr>isLoading := True\<rparr>,
           [HttpPost (apiUrl (today env)) \<lparr>salle = [\<lparr>id' = i, title = t,
              eventColor =
                (if endsWith t (js ''-TP'') then js ''#FFFFBF'' else js ''#FFD7B0'')\<rparr>]\<rparr>,
            ConsoleError ErreurEnvoiApi]))
   \<and> (getRoomId t = Some i \<and> http env = HttpResponse status d \<and> d \<noteq> DataFalsy \<longrightarrow>
        day (fst (sendToApi env t st)) = Some d
        \<and> ConsoleError ErreurEnvoiApi \<notin> set (snd (sendToApi env t st)))"
  using sendToApi_rejected_or_empty [of t i env st] sendToApi_data [of t i env status d st]
  by blast

theorem sendToApi_failure_logged_only_witness:
  "sendToApi (apiAnswers (HttpResponse 404 DataFalsy)) (js ''M03-TP'') readyState =
      (readyState\<lparr>isLoading := True\<rparr>,
       [HttpPost (apiUrl (js ''2024-01-15''))
          \<lparr>salle = [\<lparr>id' = 19393, title = js ''M03-TP'', eventColor = js ''#FFFFBF''\<rparr>]\<rparr>,
        ConsoleError ErreurEnvoiApi])
   \<and> day (fst (sendToApi (apiAnswers (HttpResponse 404 DataOther)) (js ''M03-TP'') readyState))
       = Some DataOther"
proof -
  have h: "getRoomId (js ''M03-TP'') = Some 19393"
    using token_M03_TP by simp
  have e: "endsWith (js ''M03-TP'') (js ''-TP'')"
    using token_M03_TP by simp
  have a: "http (apiAnswers (HttpResponse 404 DataFalsy)) = HttpResponse 404 DataFalsy"
    by (simp add: apiAnswers_def)
  have b: "http (apiAnswers (HttpResponse 404 DataOther)) = HttpResponse 404 DataOther"
    by (simp add: apiAnswers_def)
  have c: "today (apiAnswers (HttpResponse 404 DataFalsy)) = js ''2024-01-15''"
    by (simp add: apiAnswers_def)
  from sendToApi_failure_logged_only
         [of "js ''M03-TP''" 19393 "apiAnswers (HttpResponse 404 DataFalsy)" readyState
            404 DataFalsy]
       sendToApi_failure_logged_only
         [of "js ''M03-TP''" 19393 "apiAnswers (HttpResponse 404 DataOther)" readyState
            404 DataOther]
       h e a b c
  show ?thesis by auto
qed

text \<open>The claim as stated fails on a response that is not a success and has a body: for the
  status 500 with a body that is not an array, \<open>sendToApi\<close> stores the body in \<open>day\<close>, which
  was \<^verbatim>\<open>null\<close>, and logs no error.\<close>

theorem sendToApi_failure_counterexample:
  "day (fst (sendToApi (apiAnswers (HttpResponse 500 DataOther)) (js ''M03-TP'') readyState))
     = Some DataOther
   \<and> day readyState = None
   \<and> ConsoleError ErreurEnvoiApi
       \<notin> set (snd (sendToApi (apiAnswers (HttpResponse 500 DataOther)) (js ''M03-TP'')
                   readyState))"
  using token_M03_TP
    sendToApi_data [of "js ''M03-TP''" 19393 "apiAnswers (HttpResponse 500 DataOther)"
      500 DataOther readyState]
  by (simp add: apiAnswers_def readyState_def initialState_def)

text \<open>
  Claim C9. When the camera is toggled while a stream is held, the callback of the toggle's
  timeout, like every \<open>initializeCamera\<close>, stops every track of that stream, in order, before
  it asks the camera API for the new stream; nothing but the end of the initialisation
  follows the request.
\<close>

theorem toggle_stops_tracks_first:
  assumes "streamRef st = Some tracks"
  shows "snd (toggleCamera cl st) = [SetTimeout CallInitializeCamera 100]
    \<and> streamRef (fst (toggleCamera cl st)) = Some tracks
    \<and> (\<exists>rest. snd (toggleCamera_timeout cl cam (fst (toggleCamera cl st)))
          = map TrackStop tracks
            @ GetUserMedia (if c_isFrontCamera cl then User else Environment) # rest
        \<and> (rest = [] \<or> rest = [SetInterval 500] \<or> rest = [ConsoleError ErreurAccesCamera]))
    \<and> (\<exists>rest. snd (initializeCamera cl cam st)
          = map TrackStop tracks
            @ GetUserMedia (if c_isFrontCamera cl then User else Environment) # rest
        \<and> (rest = [] \<or> rest = [SetInterval 500] \<or> rest = [ConsoleError ErreurAccesCamera]))"
  using assms
  by (cases cam)
     (auto simp: toggleCamera_def toggleCamera_timeout_def initializeCamera_def
       stopCurrentStream_def startAnalysis_def Let_def split_beta)

theorem toggle_stops_tracks_first_witness:
  "snd (toggleCamera_timeout (render usedState) (CameraStream [5, 6])
          (fst (toggleCamera (render usedState) usedState)))
     = [TrackStop 3, TrackStop 4, GetUserMedia Environment]"
proof -
  have s: "streamRef usedState = Some [3, 4]"
    by (simp add: usedState_def)
  from toggle_stops_tracks_first [OF s, of "render usedState" "CameraStream [5, 6]"]
  show ?thesis
    by (simp add: toggleCamera_def toggleCamera_timeout_def initializeCamera_def
       stopCurrentStream_def startAnalysis_def Let_def split_beta usedState_def readyState_def
       initialState_def render_def)
qed

text \<open>
  Claim C10. When a non-empty string that \<open>getRoomId\<close> maps to \<^verbatim>\<open>null\<close> has been written
  to \<open>extractedText\<close> (so that it differs from the value of the render before), the effect on
  \<open>extractedText\<close> calls \<open>sendToApi\<close>, which sets \<open>isLoading\<close> to true and returns: it builds
  no payload, sends no request, and leaves \<open>isLoading\<close> true. The text that a refused camera
  writes to \<open>extractedText\<close> is such a string.
\<close>

theorem unmapped_text_leaves_isLoading:
  assumes "t \<noteq> []" and "getRoomId t = None" and "extractedText st = t"
    and "prev \<noteq> Some t"
  shows "extractedTextEffect env prev st = sendToApi env t st
    \<and> sendToApi env t st = (st\<lparr>isLoading := True\<rparr>, [])
    \<and> isLoading (fst (extractedTextEffect env prev st))
    \<and> posts (snd (extractedTextEffect env prev st)) = []
    \<and> sentinel \<noteq> [] \<and> getRoomId sentinel = None
    \<and> extractedText (fst (initializeCamera cl CameraRejected st0)) = sentinel"
proof -
  have "extractedTextEffect env prev st = sendToApi env t st"
    using assms by (simp add: extractedTextEffect_def)
  moreover have "sendToApi env t st = (st\<lparr>isLoading := True\<rparr>, [])"
    by (rule sendToApi_unmapped [OF assms(2)])
  moreover have "extractedText (fst (initializeCamera cl CameraRejected st0)) = sentinel"
    by (simp add: initializeCamera_def Let_def)
  ultimately show ?thesis using sentinel_unmapped by simp
qed

theorem unmapped_text_leaves_isLoading_witness:
  "extractedTextEffect (apiAnswers (HttpResponse 200 (DataArray []))) (Some [])
     (fst (initializeCamera (render (initialState 0)) CameraRejected (initialState 0)))
   = ((initialState 0)\<lparr>extractedText := sentinel, isLoading := True\<rparr>, [])"
proof -
  let ?st = "fst (initializeCamera (render (initialState 0)) CameraRejected (initialState 0))"
  have e: "?st = (initialState 0)\<lparr>extractedText := sentinel\<rparr>"
    by (simp add: initializeCamera_def Let_def)
  have 1: "sentinel \<noteq> []" and 2: "getRoomId sentinel = None"
    using sentinel_unmapped by simp_all
  have 3: "extractedText ?st = sentinel"
    by (simp add: e)
  have 4: "Some [] \<noteq> Some sentinel"
    using 1 by simp
  from unmapped_text_leaves_isLoading
    [OF 1 2 3 4, of "apiAnswers (HttpResponse 200 (DataArray []))"]
  show ?thesis by (simp add: e)
qed

end
